theory Spec2Isabelle
  imports Complex_Main "HOL-Library.Finite_Map"
begin

section \<open>Python values and the operations the parser applies to them\<close>

text \<open>
  The result of \<^verbatim>\<open>parse_cp2k_output\<close> is a Python \<^verbatim>\<open>dict\<close> with string keys whose
  values are numbers, strings, lists and nested dicts. A dict is a finite map; Python's
  \<^verbatim>\<open>float\<close> is idealised as \<open>real\<close> (no rounding, no inf/nan), Python's \<^verbatim>\<open>int\<close>
  is \<open>int\<close>.
\<close>

datatype pyval =
    PNone
  | PBool bool
  | PInt int
  | PFloat real
  | PStr string
  | PList "pyval list"
  | PDict "(string, pyval) fmap"

type_synonym pydict = "(string, pyval) fmap"

text \<open>
  Exceptions. \<open>IOError\<close> stands for Python's \<^verbatim>\<open>IOError\<close>/\<^verbatim>\<open>OSError\<close> family,
  \<open>NotExistent\<close> for \<^verbatim>\<open>aiida.common.exceptions.NotExistent\<close>, \<open>OtherError\<close> for
  anything else an external routine may raise.
\<close>

datatype exn = NotExistent | IOError | KeyError | IndexError | TypeError | OtherError string

text \<open>Sequencing of computations that may raise: the first exception wins.\<close>

definition bnd :: "exn + 'a \<Rightarrow> ('a \<Rightarrow> exn + 'b) \<Rightarrow> exn + 'b" where
  "bnd m f = (case m of Inl e \<Rightarrow> Inl e | Inr x \<Rightarrow> f x)"

text \<open>\<^verbatim>\<open>d[k]\<close> on a dict with a string key: \<^verbatim>\<open>KeyError\<close> when the key is absent.\<close>

definition dict_getitem :: "pydict \<Rightarrow> string \<Rightarrow> exn + pyval" where
  "dict_getitem d k = (case fmlookup d k of None \<Rightarrow> Inl KeyError | Some v \<Rightarrow> Inr v)"

text \<open>\<^verbatim>\<open>len(x)\<close>: defined on lists, strings and dicts, \<^verbatim>\<open>TypeError\<close> otherwise.\<close>

fun py_len :: "pyval \<Rightarrow> exn + int" where
  "py_len (PList xs) = Inr (int (length xs))"
| "py_len (PStr s) = Inr (int (length s))"
| "py_len (PDict d) = Inr (int (fcard (fmdom d)))"
| "py_len PNone = Inl TypeError"
| "py_len (PBool b) = Inl TypeError"
| "py_len (PInt i) = Inl TypeError"
| "py_len (PFloat x) = Inl TypeError"

text \<open>
  The numeric tower: \<^verbatim>\<open>bool\<close> is a subclass of \<^verbatim>\<open>int\<close>; arithmetic on two ints stays
  an int, anything involving a float is a float.
\<close>

datatype num = NInt int | NFloat real

fun as_num :: "pyval \<Rightarrow> num option" where
  "as_num (PBool b) = Some (NInt (if b then 1 else 0))"
| "as_num (PInt i) = Some (NInt i)"
| "as_num (PFloat x) = Some (NFloat x)"
| "as_num PNone = None"
| "as_num (PStr s) = None"
| "as_num (PList xs) = None"
| "as_num (PDict d) = None"

fun num_real :: "num \<Rightarrow> real" where
  "num_real (NInt i) = real_of_int i"
| "num_real (NFloat x) = x"

text \<open>\<^verbatim>\<open>a - b\<close>: numbers only (the mapping holds no sets), \<^verbatim>\<open>TypeError\<close> otherwise.\<close>

definition py_sub :: "pyval \<Rightarrow> pyval \<Rightarrow> exn + pyval" where
  "py_sub a b =
     (case (as_num a, as_num b) of
        (Some (NInt i), Some (NInt j)) \<Rightarrow> Inr (PInt (i - j))
      | (Some x, Some y) \<Rightarrow> Inr (PFloat (num_real x - num_real y))
      | _ \<Rightarrow> Inl TypeError)"

text \<open>\<^verbatim>\<open>a > b\<close>: numbers only in Python 3, \<^verbatim>\<open>TypeError\<close> otherwise.\<close>

definition py_gt :: "pyval \<Rightarrow> pyval \<Rightarrow> exn + bool" where
  "py_gt a b =
     (case (as_num a, as_num b) of
        (Some (NInt i), Some (NInt j)) \<Rightarrow> Inr (i > j)
      | (Some x, Some y) \<Rightarrow> Inr (num_real x > num_real y)
      | _ \<Rightarrow> Inl TypeError)"

text \<open>
  Indexing a sequence of length \<open>n\<close> with an integer: a negative index counts from the
  end, and an index outside \<open>-n \<dots> n-1\<close> raises \<^verbatim>\<open>IndexError\<close>.
\<close>

definition seq_index :: "'a list \<Rightarrow> int \<Rightarrow> exn + 'a" where
  "seq_index xs i =
     (if 0 \<le> i \<and> i < int (length xs) then Inr (xs ! nat i)
      else if i < 0 \<and> - int (length xs) \<le> i then Inr (xs ! nat (int (length xs) + i))
      else Inl IndexError)"

text \<open>
  \<^verbatim>\<open>x[k]\<close>: a list or a string takes an \<^verbatim>\<open>int\<close> (or \<^verbatim>\<open>bool\<close>) index, a dict a key.
  The dicts here have string keys only, so any other hashable key is absent
  (\<^verbatim>\<open>KeyError\<close>) and an unhashable one (list, dict) is a \<^verbatim>\<open>TypeError\<close>.
\<close>

fun py_getitem :: "pyval \<Rightarrow> pyval \<Rightarrow> exn + pyval" where
  "py_getitem (PList xs) (PInt i) = seq_index xs i"
| "py_getitem (PList xs) (PBool b) = seq_index xs (if b then 1 else 0)"
| "py_getitem (PList xs) k = Inl TypeError"
| "py_getitem (PStr s) (PInt i) = map_sum id (\<lambda>c. PStr [c]) (seq_index s i)"
| "py_getitem (PStr s) (PBool b) = map_sum id (\<lambda>c. PStr [c]) (seq_index s (if b then 1 else 0))"
| "py_getitem (PStr s) k = Inl TypeError"
| "py_getitem (PDict d) (PStr k) = dict_getitem d k"
| "py_getitem (PDict d) (PList xs) = Inl TypeError"
| "py_getitem (PDict d) (PDict d') = Inl TypeError"
| "py_getitem (PDict d) k = Inl KeyError"
| "py_getitem PNone k = Inl TypeError"
| "py_getitem (PBool b) k = Inl TypeError"
| "py_getitem (PInt i) k = Inl TypeError"
| "py_getitem (PFloat x) k = Inl TypeError"

section \<open>The parser's environment and outputs\<close>

text \<open>
  \<^verbatim>\<open>self.exit_codes.X\<close> and \<^verbatim>\<open>ExitCode(0)\<close>: one constructor per name the parser uses.
\<close>

datatype exit_code =
    ExitCode_0
  | ERROR_NO_RETRIEVED_FOLDER
  | ERROR_OUTPUT_STDOUT_MISSING
  | ERROR_OUTPUT_STDOUT_READ
  | ERROR_GEOMETRY_CONVERGENCE_NOT_REACHED
  | ERROR_UKS_NEEDED
  | ERROR_OUTPUT_CONTAINS_ABORT

text \<open>
  \<^verbatim>\<open>BandsData\<close> is AiiDA's container, with the four pieces of data the parser hands
  to it. Its setters validate what they are given and may raise; they are modelled
  below, next to the parser's environment.
\<close>

record bands_data =
  kpoints :: "pyval option"
  labels :: "pyval option"
  bands :: "pyval option"
  units :: "pyval option"

definition BandsData :: bands_data where
  "BandsData = \<lparr>kpoints = None, labels = None, bands = None, units = None\<rparr>"

text \<open>
  The nodes handed to \<^verbatim>\<open>self.out\<close>: \<^verbatim>\<open>Dict(dict=\<dots>)\<close> (a snapshot of the mapping),
  \<^verbatim>\<open>StructureData\<close> (built outside this repository, kept abstract as \<open>'s\<close>) and
  \<^verbatim>\<open>BandsData\<close>.
\<close>

datatype 's node = Dict pydict | Structure 's | Bands bands_data

text \<open>
  The calls the parser makes to its collaborators, recorded in order, so that what a run
  did and did not touch can be stated.
\<close>

datatype event =
    Stdout_listed
  | Stdout_read
  | Output_scanned
  | Restart_listed
  | Restart_read
  | Trajectory_parsed

text \<open>The parser object's mutable state: the registered outputs and the call record.\<close>

record 's pstate =
  outputs :: "string \<rightharpoonup> 's node"
  events :: "event list"

definition out :: "string \<Rightarrow> 's node \<Rightarrow> 's pstate \<Rightarrow> 's pstate" where
  "out link_label n s = s\<lparr>outputs := (outputs s)(link_label \<mapsto> n)\<rparr>"

definition log_event :: "event \<Rightarrow> 's pstate \<Rightarrow> 's pstate" where
  "log_event e s = s\<lparr>events := events s @ [e]\<rparr>"

text \<open>The two parser classes; \<^verbatim>\<open>sections\<close> is their class attribute.\<close>

datatype parser_class = Cp2kBaseParser | Cp2kAdvancedParser

fun sections :: "parser_class \<Rightarrow> string list" where
  "sections Cp2kBaseParser = []"
| "sections Cp2kAdvancedParser =
     [''spin_density'', ''natoms'', ''scf_parameters'', ''init_nel'', ''kpoint_data'', ''motion_info'']"

text \<open>
  What one parser instance sees. \<open>retrieved\<close> is \<open>None\<close> when \<^verbatim>\<open>self.retrieved\<close>
  raises \<^verbatim>\<open>NotExistent\<close>; otherwise it maps each object name of the folder to what
  \<^verbatim>\<open>get_object_content\<close> gives for it (its text, or the exception raised).
  \<open>parse_cp2k_output\<close> and \<open>build_structure\<close> (for
  \<^verbatim>\<open>StructureData(ase=Atoms(**parse_cp2k_trajectory(s)))\<close>) live outside the parser
  module and are parameters. So is the validation done by the setters of \<^verbatim>\<open>BandsData\<close>:
  \<open>kpoints_check\<close>, \<open>labels_check\<close> and \<open>bands_check\<close> give the exception that
  \<^verbatim>\<open>set_kpoints\<close>, the \<^verbatim>\<open>labels\<close> setter and \<^verbatim>\<open>set_bands\<close> raise for their
  arguments on the container as it stands, or \<open>None\<close> when they accept them.
\<close>

record 's calc =
  klass :: parser_class
  retrieved :: "(string \<rightharpoonup> exn + string) option"
  output_filename :: string
  restart_file_name :: string
  parse_cp2k_output :: "string \<Rightarrow> string list \<Rightarrow> exn + pydict"
  build_structure :: "string \<Rightarrow> exn + 's"
  kpoints_check :: "pyval \<Rightarrow> bands_data \<Rightarrow> exn option"
  labels_check :: "pyval \<Rightarrow> bands_data \<Rightarrow> exn option"
  bands_check :: "pyval \<Rightarrow> pyval \<Rightarrow> bands_data \<Rightarrow> exn option"

text \<open>
  The three setters: the check, which may raise, then the store. \<^verbatim>\<open>set_bands\<close> takes
  the bands and their \<^verbatim>\<open>units\<close>.
\<close>

definition set_kpoints :: "'s calc \<Rightarrow> pyval \<Rightarrow> bands_data \<Rightarrow> exn + bands_data" where
  "set_kpoints c k bnds =
     (case kpoints_check c k bnds of
        Some e \<Rightarrow> Inl e
      | None \<Rightarrow> Inr (bnds\<lparr>kpoints := Some k\<rparr>))"

definition set_labels :: "'s calc \<Rightarrow> pyval \<Rightarrow> bands_data \<Rightarrow> exn + bands_data" where
  "set_labels c l bnds =
     (case labels_check c l bnds of
        Some e \<Rightarrow> Inl e
      | None \<Rightarrow> Inr (bnds\<lparr>labels := Some l\<rparr>))"

definition set_bands ::
  "'s calc \<Rightarrow> pyval \<Rightarrow> pyval \<Rightarrow> bands_data \<Rightarrow> exn + bands_data" where
  "set_bands c b u bnds =
     (case bands_check c b u bnds of
        Some e \<Rightarrow> Inl e
      | None \<Rightarrow> Inr (bnds\<lparr>bands := Some b, units := Some u\<rparr>))"

section \<open>The parser\<close>

text \<open>
  \<^verbatim>\<open>Cp2kBaseParser._parse_stdout\<close>: an exit code (\<open>Inl\<close>) or the result mapping
  (\<open>Inr\<close>), unless an exception escapes.
\<close>

definition parse_stdout ::
  "'s calc \<Rightarrow> 's pstate \<Rightarrow> (exn + (exit_code + pydict)) \<times> 's pstate" where
  "parse_stdout c s =
     (case retrieved c of
        None \<Rightarrow> (Inl NotExistent, s)
      | Some folder \<Rightarrow>
          let fname = output_filename c; s1 = log_event Stdout_listed s in
          (case folder fname of
             None \<Rightarrow> (Inr (Inl ERROR_OUTPUT_STDOUT_MISSING), s1)
           | Some content \<Rightarrow>
               let s2 = log_event Stdout_read s1 in
               (case content of
                  Inl e \<Rightarrow>
                    if e = IOError then (Inr (Inl ERROR_OUTPUT_STDOUT_READ), s2)
                    else (Inl e, s2)
                | Inr output_string \<Rightarrow>
                    let s3 = log_event Output_scanned s2 in
                    (case parse_cp2k_output c output_string (sections (klass c)) of
                       Inl e \<Rightarrow> (Inl e, s3)
                     | Inr result_dict \<Rightarrow>
                         if ''geo_not_converged'' |\<in>| fmdom result_dict
                         then (Inr (Inl ERROR_GEOMETRY_CONVERGENCE_NOT_REACHED), s3)
                         else if ''uks_needed'' |\<in>| fmdom result_dict
                         then (Inr (Inl ERROR_UKS_NEEDED), s3)
                         else if ''aborted'' |\<in>| fmdom result_dict
                         then (Inr (Inl ERROR_OUTPUT_CONTAINS_ABORT), s3)
                         else (Inr (Inr result_dict), s3)))))"

text \<open>
  \<^verbatim>\<open>Cp2kBaseParser._parse_trajectory\<close>: raises \<^verbatim>\<open>NotExistent\<close> when the restart file
  is not in the folder, returns an exit code when reading it raises \<^verbatim>\<open>IOError\<close>, and
  the structure otherwise.
\<close>

definition parse_trajectory ::
  "'s calc \<Rightarrow> 's pstate \<Rightarrow> (exn + (exit_code + 's)) \<times> 's pstate" where
  "parse_trajectory c s =
     (case retrieved c of
        None \<Rightarrow> (Inl NotExistent, s)
      | Some folder \<Rightarrow>
          let fname = restart_file_name c; s1 = log_event Restart_listed s in
          (case folder fname of
             None \<Rightarrow> (Inl NotExistent, s1)
           | Some content \<Rightarrow>
               let s2 = log_event Restart_read s1 in
               (case content of
                  Inl e \<Rightarrow>
                    if e = IOError then (Inr (Inl ERROR_OUTPUT_STDOUT_READ), s2)
                    else (Inl e, s2)
                | Inr output_string \<Rightarrow>
                    let s3 = log_event Trajectory_parsed s2 in
                    (case build_structure c output_string of
                       Inl e \<Rightarrow> (Inl e, s3)
                     | Inr st \<Rightarrow> (Inr (Inr st), s3)))))"

text \<open>
  The band-gap block of \<^verbatim>\<open>Cp2kAdvancedParser._create_output_nodes\<close> (the body of
  \<^verbatim>\<open>if 'eigen_spin1_au' in result_dict\<close>), in the source's order of evaluation:
  \<open>lumo_indices\<close> is the choice of the two LUMO indices with the fallback to the last
  position, \<open>gap_block\<close> the index choice followed by the four lookups and the two
  subtractions, \<open>bandgap\<close> the whole block, starting with the copy of the first
  channel for an \<^verbatim>\<open>RKS\<close> run. Each returns the updated mapping; an exception leaves
  no output behind.
\<close>

definition lumo_indices :: "pydict \<Rightarrow> exn + pyval \<times> pyval" where
  "lumo_indices d =
     bnd (dict_getitem d ''init_nel_spin1'') (\<lambda>lumo_spin1_idx.
     bnd (dict_getitem d ''init_nel_spin2'') (\<lambda>lumo_spin2_idx.
     bnd (dict_getitem d ''eigen_spin1_au'') (\<lambda>e1.
     bnd (py_len e1) (\<lambda>n1.
     bnd (py_gt lumo_spin1_idx (PInt (n1 - 1))) (\<lambda>past1.
     bnd (if past1 then Inr True
          else bnd (dict_getitem d ''eigen_spin2_au'') (\<lambda>e2.
               bnd (py_len e2) (\<lambda>n2.
               py_gt lumo_spin2_idx (PInt (n2 - 1))))) (\<lambda>past.
     if past
     then bnd (dict_getitem d ''eigen_spin1_au'') (\<lambda>e1.
          bnd (py_len e1) (\<lambda>n1.
          bnd (dict_getitem d ''eigen_spin2_au'') (\<lambda>e2.
          bnd (py_len e2) (\<lambda>n2.
          Inr (PInt (n1 - 1), PInt (n2 - 1))))))
     else Inr (lumo_spin1_idx, lumo_spin2_idx)))))))"

definition gap_block :: "pydict \<Rightarrow> exn + pydict" where
  "gap_block d =
     bnd (lumo_indices d) (\<lambda>(lumo_spin1_idx, lumo_spin2_idx).
     bnd (dict_getitem d ''eigen_spin1_au'') (\<lambda>e1.
     bnd (py_sub lumo_spin1_idx (PInt 1)) (\<lambda>i1.
     bnd (py_getitem e1 i1) (\<lambda>homo_spin1.
     bnd (dict_getitem d ''eigen_spin2_au'') (\<lambda>e2.
     bnd (py_sub lumo_spin2_idx (PInt 1)) (\<lambda>i2.
     bnd (py_getitem e2 i2) (\<lambda>homo_spin2.
     bnd (dict_getitem d ''eigen_spin1_au'') (\<lambda>e1.
     bnd (py_getitem e1 lumo_spin1_idx) (\<lambda>lumo_spin1.
     bnd (dict_getitem d ''eigen_spin2_au'') (\<lambda>e2.
     bnd (py_getitem e2 lumo_spin2_idx) (\<lambda>lumo_spin2.
     bnd (py_sub lumo_spin1 homo_spin1) (\<lambda>g1.
     bnd (py_sub lumo_spin2 homo_spin2) (\<lambda>g2.
     Inr (fmupd ''bandgap_spin2_au'' g2 (fmupd ''bandgap_spin1_au'' g1 d)))))))))))))))"

definition bandgap :: "pydict \<Rightarrow> exn + pydict" where
  "bandgap result_dict =
     bnd (dict_getitem result_dict ''dft_type'') (\<lambda>dft_type.
     bnd (if dft_type = PStr ''RKS''
          then bnd (dict_getitem result_dict ''eigen_spin1_au'') (\<lambda>e1.
               Inr (fmupd ''eigen_spin2_au'' e1 result_dict))
          else Inr result_dict) gap_block)"

text \<open>
  \<^verbatim>\<open>_create_output_nodes\<close> of the two classes. The base class emits the mapping as it
  is. The advanced class computes the band gaps when \<^verbatim>\<open>eigen_spin1_au\<close> is present,
  promotes \<^verbatim>\<open>kpoint_data\<close> to an \<^verbatim>\<open>output_bands\<close> node and deletes it from the
  mapping, then emits the mapping. An exception raised on the way (by a lookup or by a
  setter of the container) escapes before anything is emitted.
\<close>

definition promote_kpoints ::
  "'s calc \<Rightarrow> pydict \<Rightarrow> 's pstate \<Rightarrow> exn + pydict \<times> 's pstate" where
  "promote_kpoints c d s =
     (if ''kpoint_data'' |\<in>| fmdom d
      then
        bnd (dict_getitem d ''kpoint_data'') (\<lambda>kp.
        bnd (py_getitem kp (PStr ''kpoints'')) (\<lambda>k.
        bnd (set_kpoints c k BandsData) (\<lambda>bnds.
        bnd (dict_getitem d ''kpoint_data'') (\<lambda>kp.
        bnd (py_getitem kp (PStr ''labels'')) (\<lambda>l.
        bnd (set_labels c l bnds) (\<lambda>bnds.
        bnd (dict_getitem d ''kpoint_data'') (\<lambda>kp.
        bnd (py_getitem kp (PStr ''bands'')) (\<lambda>b.
        bnd (dict_getitem d ''kpoint_data'') (\<lambda>kp.
        bnd (py_getitem kp (PStr ''bands_unit'')) (\<lambda>u.
        bnd (set_bands c b u bnds) (\<lambda>bnds.
        Inr (fmdrop ''kpoint_data'' d, out ''output_bands'' (Bands bnds) s))))))))))))
      else Inr (d, s))"

definition create_output_nodes ::
  "'s calc \<Rightarrow> pydict \<Rightarrow> 's pstate \<Rightarrow> (exn + unit) \<times> 's pstate" where
  "create_output_nodes c result_dict s =
     (case klass c of
        Cp2kBaseParser \<Rightarrow> (Inr (), out ''output_parameters'' (Dict result_dict) s)
      | Cp2kAdvancedParser \<Rightarrow>
          (case (if ''eigen_spin1_au'' |\<in>| fmdom result_dict
                 then bandgap result_dict else Inr result_dict) of
             Inl e \<Rightarrow> (Inl e, s)
           | Inr d \<Rightarrow>
               (case promote_kpoints c d s of
                  Inl e \<Rightarrow> (Inl e, s)
                | Inr (d', s') \<Rightarrow> (Inr (), out ''output_parameters'' (Dict d') s'))))"

text \<open>
  \<^verbatim>\<open>Cp2kBaseParser.parse\<close>: the exit code returned, or the exception that escapes,
  with the parser's final state.
\<close>

definition parse :: "'s calc \<Rightarrow> 's pstate \<Rightarrow> (exn + exit_code) \<times> 's pstate" where
  "parse c s =
     (case retrieved c of
        None \<Rightarrow> (Inr ERROR_NO_RETRIEVED_FOLDER, s)
      | Some folder \<Rightarrow>
          (case parse_stdout c s of
             (Inl e, s1) \<Rightarrow> (Inl e, s1)
           | (Inr (Inl code), s1) \<Rightarrow> (Inr code, s1)
           | (Inr (Inr result_dict), s1) \<Rightarrow>
               (case create_output_nodes c result_dict s1 of
                  (Inl e, s2) \<Rightarrow> (Inl e, s2)
                | (Inr u, s2) \<Rightarrow>
                    (case parse_trajectory c s2 of
                       (Inl e, s3) \<Rightarrow>
                         if e = NotExistent then (Inr ExitCode_0, s3) else (Inl e, s3)
                     | (Inr (Inl code), s3) \<Rightarrow> (Inr code, s3)
                     | (Inr (Inr st), s3) \<Rightarrow>
                         (Inr ExitCode_0, out ''output_structure'' (Structure st) s3)))))"

section \<open>Notions used in the statements\<close>

text \<open>
  The position that a Python index \<open>i\<close> denotes in a sequence of length \<open>n\<close>
  (meaningful for \<open>-n \<le> i < n\<close>).
\<close>

definition py_pos :: "nat \<Rightarrow> int \<Rightarrow> nat" where
  "py_pos n i = nat (if i < 0 then int n + i else i)"

text \<open>
  The LUMO indices the band-gap block settles on, for integer occupations \<open>l1\<close>, \<open>l2\<close>
  and channels of lengths \<open>n1\<close>, \<open>n2\<close>.
\<close>

definition clamp_idx :: "int \<Rightarrow> int \<Rightarrow> nat \<Rightarrow> nat \<Rightarrow> int \<times> int" where
  "clamp_idx l1 l2 n1 n2 =
     (if l1 > int n1 - 1 \<or> l2 > int n2 - 1 then (int n1 - 1, int n2 - 1) else (l1, l2))"

text \<open>The four lookups and two subtractions of the block, on two lists and two indices.\<close>

definition gaps :: "pydict \<Rightarrow> pyval list \<Rightarrow> pyval list \<Rightarrow> int \<Rightarrow> int \<Rightarrow> exn + pydict" where
  "gaps d e1 e2 i1 i2 =
     bnd (seq_index e1 (i1 - 1)) (\<lambda>homo_spin1.
     bnd (seq_index e2 (i2 - 1)) (\<lambda>homo_spin2.
     bnd (seq_index e1 i1) (\<lambda>lumo_spin1.
     bnd (seq_index e2 i2) (\<lambda>lumo_spin2.
     bnd (py_sub lumo_spin1 homo_spin1) (\<lambda>g1.
     bnd (py_sub lumo_spin2 homo_spin2) (\<lambda>g2.
     Inr (fmupd ''bandgap_spin2_au'' g2 (fmupd ''bandgap_spin1_au'' g1 d))))))))"

section \<open>Sample runs\<close>

text \<open>
  A calculation whose retrieved folder holds a readable output file and no restart file,
  whose scanner returns the mapping \<open>d\<close> and whose band container accepts what it is
  given; and a fresh parser state.
\<close>

definition sample_calc :: "parser_class \<Rightarrow> pydict \<Rightarrow> unit calc" where
  "sample_calc k d =
     \<lparr>klass = k,
      retrieved = Some [''aiida.out'' \<mapsto> Inr ''log''],
      output_filename = ''aiida.out'',
      restart_file_name = ''aiida-1.restart'',
      parse_cp2k_output = (\<lambda>output_string secs. Inr d),
      build_structure = (\<lambda>output_string. Inr ()),
      kpoints_check = (\<lambda>k bnds. None),
      labels_check = (\<lambda>l bnds. None),
      bands_check = (\<lambda>b u bnds. None)\<rparr>"

definition fresh :: "unit pstate" where
  "fresh = \<lparr>outputs = Map.empty, events = []\<rparr>"

definition all_sentinels :: pydict where
  "all_sentinels =
     fmap_of_list [(''energy'', PFloat (-17)), (''aborted'', PBool True),
                   (''uks_needed'', PBool True), (''geo_not_converged'', PBool True)]"

text \<open>
  An unrestricted run whose first occupation equals the length of the first eigenvalue
  array; and one where, in addition, the second array is empty.
\<close>

definition uks_crossed :: pydict where
  "uks_crossed =
     fmap_of_list [(''dft_type'', PStr ''UKS''),
                   (''eigen_spin1_au'', PList (map PFloat [-1, -0.5, 0.25])),
                   (''eigen_spin2_au'', PList (map PFloat [-0.75, -0.5, 0.25, 1.5])),
                   (''init_nel_spin1'', PInt 3),
                   (''init_nel_spin2'', PInt 1)]"

definition uks_empty_second :: pydict where
  "uks_empty_second =
     fmap_of_list [(''dft_type'', PStr ''UKS''),
                   (''eigen_spin1_au'', PList [PFloat (-1)]),
                   (''eigen_spin2_au'', PList []),
                   (''init_nel_spin1'', PInt 1),
                   (''init_nel_spin2'', PInt 0)]"

text \<open>A restricted run, with the same occupation in both channels.\<close>

definition rks_sample :: pydict where
  "rks_sample =
     fmap_of_list [(''dft_type'', PStr ''RKS''),
                   (''eigen_spin1_au'', PList (map PFloat [-1, -0.5, 0.2, 0.8])),
                   (''init_nel_spin1'', PInt 2),
                   (''init_nel_spin2'', PInt 2)]"

text \<open>An unrestricted run whose first occupation is zero.\<close>

definition uks_zero :: pydict where
  "uks_zero =
     fmap_of_list [(''dft_type'', PStr ''UKS''),
                   (''eigen_spin1_au'', PList (map PFloat [-1, -0.5, 0.2])),
                   (''eigen_spin2_au'', PList (map PFloat [-0.9, -0.4, 0.3, 0.9])),
                   (''init_nel_spin1'', PInt 0),
                   (''init_nel_spin2'', PInt 2)]"

text \<open>Mappings with k-point data, without and with a status sentinel.\<close>

definition kpoint_table :: pydict where
  "kpoint_table =
     fmap_of_list [(''kpoints'', PList [PList [PFloat 0, PFloat 0, PFloat 0],
                                        PList [PFloat 0.5, PFloat 0, PFloat 0]]),
                   (''labels'', PList [PList [PInt 0, PStr ''GAMMA''], PList [PInt 1, PStr ''X'']]),
                   (''bands'', PList [PList [PFloat (-5.1), PFloat 1.3],
                                      PList [PFloat (-4.8), PFloat 1.9]]),
                   (''bands_unit'', PStr ''eV'')]"

definition with_kpoints :: pydict where
  "with_kpoints =
     fmap_of_list [(''energy'', PFloat (-17)), (''kpoint_data'', PDict kpoint_table)]"

definition not_converged_with_kpoints :: pydict where
  "not_converged_with_kpoints =
     fmap_of_list [(''energy'', PFloat (-17)), (''geo_not_converged'', PBool True),
                   (''kpoint_data'', PDict kpoint_table)]"

text \<open>
  Mappings with k-point data that the advanced parser cannot turn into output nodes: a
  table without labels, and a well-formed table next to an empty eigenvalue array; and a
  calculation whose band container rejects the bands it is given.
\<close>

definition unlabelled_kpoints :: pydict where
  "unlabelled_kpoints =
     fmap_of_list [(''energy'', PFloat (-17)),
                   (''kpoint_data'', PDict (fmdrop ''labels'' kpoint_table))]"

definition empty_channel_with_kpoints :: pydict where
  "empty_channel_with_kpoints =
     fmap_of_list [(''dft_type'', PStr ''UKS''),
                   (''eigen_spin1_au'', PList [PFloat (-1)]),
                   (''eigen_spin2_au'', PList []),
                   (''init_nel_spin1'', PInt 1),
                   (''init_nel_spin2'', PInt 0),
                   (''kpoint_data'', PDict kpoint_table)]"

definition strict_bands_calc :: "pydict \<Rightarrow> unit calc" where
  "strict_bands_calc d =
     (sample_calc Cp2kAdvancedParser d)
       \<lparr>bands_check := (\<lambda>b u bnds. Some (OtherError ''ValueError''))\<rparr>"

text \<open>
  A mapping without sentinels, and a base-parser calculation over a given retrieved folder
  whose scanner returns it.
\<close>

definition plain :: pydict where
  "plain = fmap_of_list [(''energy'', PFloat (-17)), (''energy_units'', PStr ''a.u.'')]"

definition folder_calc :: "(string \<rightharpoonup> exn + string) \<Rightarrow> unit calc" where
  "folder_calc folder =
     \<lparr>klass = Cp2kBaseParser,
      retrieved = Some folder,
      output_filename = ''aiida.out'',
      restart_file_name = ''aiida-1.restart'',
      parse_cp2k_output = (\<lambda>output_string secs. Inr plain),
      build_structure = (\<lambda>output_string. Inr ()),
      kpoints_check = (\<lambda>k bnds. None),
      labels_check = (\<lambda>l bnds. None),
      bands_check = (\<lambda>b u bnds. None)\<rparr>"

text \<open>A run whose restart file is present but is rejected by the trajectory parser.\<close>

definition malformed_restart :: "unit calc" where
  "malformed_restart =
     \<lparr>klass = Cp2kBaseParser,
      retrieved = Some [''aiida.out'' \<mapsto> Inr ''log'', ''aiida-1.restart'' \<mapsto> Inr ''garbage''],
      output_filename = ''aiida.out'',
      restart_file_name = ''aiida-1.restart'',
      parse_cp2k_output = (\<lambda>output_string secs. Inr plain),
      build_structure = (\<lambda>output_string. Inl (OtherError ''ValueError'')),
      kpoints_check = (\<lambda>k bnds. None),
      labels_check = (\<lambda>l bnds. None),
      bands_check = (\<lambda>b u bnds. None)\<rparr>"

section \<open>Scalar extraction of the output scanner\<close>

text \<open>
  \<^verbatim>\<open>aiida_cp2k.utils.parser.parse_cp2k_output\<close> is not part of the sources at hand. Its
  scalar extraction is modelled from the specification of the Output Scanner: the log is
  read line by line; a line that carries the fixed marker of a scalar section has its
  trailing numeric token parsed and stored under the section's field, so that a later
  occurrence overwrites an earlier one; a marker line whose trailing token is not a
  number is a hard failure.
\<close>

text \<open>Modelled from the spec: splitting a text at a separator character (the
  scanner's line and token splitting, absent from the sources).\<close>

fun split_on :: "char \<Rightarrow> string \<Rightarrow> string list" where
  "split_on sep [] = [[]]"
| "split_on sep (c # cs) =
     (if c = sep then [] # split_on sep cs
      else (case split_on sep cs of [] \<Rightarrow> [[c]] | w # ws \<Rightarrow> (c # w) # ws))"

text \<open>Modelled from the spec: the lines of the fully buffered log (absent scanner).\<close>

definition log_lines :: "string \<Rightarrow> string list" where
  "log_lines output_string = split_on (CHR 0x0A) output_string"

text \<open>Modelled from the spec: the blank-separated tokens of a line (absent scanner).\<close>

definition tokens :: "string \<Rightarrow> string list" where
  "tokens line = filter (\<lambda>w. w \<noteq> []) (split_on CHR '' '' line)"

text \<open>Modelled from the spec: a line matches a fixed textual marker when the marker
  occurs in it (absent scanner's matching of a scalar section).\<close>

fun starts_with :: "string \<Rightarrow> string \<Rightarrow> bool" where
  "starts_with [] line = True"
| "starts_with (m # ms) [] = False"
| "starts_with (m # ms) (c # cs) = (m = c \<and> starts_with ms cs)"

text \<open>Modelled from the spec: occurrence of the marker anywhere in the line (absent
  scanner's matching of a scalar section).\<close>

fun has_marker :: "string \<Rightarrow> string \<Rightarrow> bool" where
  "has_marker marker [] = (marker = [])"
| "has_marker marker (c # cs) = (starts_with marker (c # cs) \<or> has_marker marker cs)"

text \<open>Modelled from the spec: the value of a decimal digit (absent scanner's parsing
  of numeric tokens).\<close>

definition digit :: "char \<Rightarrow> nat option" where
  "digit c = map_of [(CHR ''0'', 0), (CHR ''1'', 1), (CHR ''2'', 2), (CHR ''3'', 3),
                     (CHR ''4'', 4), (CHR ''5'', 5), (CHR ''6'', 6), (CHR ''7'', 7),
                     (CHR ''8'', 8), (CHR ''9'', 9)] c"

text \<open>Modelled from the spec: the number a digit string denotes (absent scanner's
  parsing of numeric tokens).\<close>

fun digits_val :: "string \<Rightarrow> nat \<Rightarrow> nat option" where
  "digits_val [] acc = Some acc"
| "digits_val (c # cs) acc =
     (case digit c of None \<Rightarrow> None | Some k \<Rightarrow> digits_val cs (10 * acc + k))"

text \<open>Modelled from the spec: an unsigned decimal with an optional fraction (absent
  scanner's parsing of numeric tokens).\<close>

definition unsigned_decimal :: "string \<Rightarrow> real option" where
  "unsigned_decimal s =
     (let ip = takeWhile (\<lambda>c. c \<noteq> CHR ''.'') s;
          fp = drop 1 (dropWhile (\<lambda>c. c \<noteq> CHR ''.'') s)
      in if ip = [] \<and> fp = [] then None
         else (case (digits_val ip 0, digits_val fp 0) of
                 (Some i, Some f) \<Rightarrow> Some (real i + real f / 10 ^ length fp)
               | _ \<Rightarrow> None))"

text \<open>Modelled from the spec: a signed exponent (absent scanner's parsing of numeric
  tokens in exponential notation).\<close>

definition signed_int :: "string \<Rightarrow> int option" where
  "signed_int s =
     (case s of
        [] \<Rightarrow> None
      | c # cs \<Rightarrow>
          if c = CHR ''-'' then (if cs = [] then None else map_option (\<lambda>n. - int n) (digits_val cs 0))
          else if c = CHR ''+'' then (if cs = [] then None else map_option int (digits_val cs 0))
          else map_option int (digits_val s 0))"

text \<open>Modelled from the spec: a numeric token, with optional sign, fraction and
  exponent; \<open>None\<close> for a token that is not a number (absent scanner's parsing of
  numeric tokens).\<close>

definition parse_float :: "string \<Rightarrow> real option" where
  "parse_float tok =
     (let is_e = (\<lambda>c. c = CHR ''e'' \<or> c = CHR ''E'');
          m = takeWhile (\<lambda>c. \<not> is_e c) tok;
          e = dropWhile (\<lambda>c. \<not> is_e c) tok;
          (sgn, u) = (case m of
                        c # cs \<Rightarrow> if c = CHR ''-'' then (- 1, cs)
                                  else if c = CHR ''+'' then (1, cs) else (1, m)
                      | [] \<Rightarrow> (1, m))
      in case unsigned_decimal u of
           None \<Rightarrow> None
         | Some x \<Rightarrow>
             if e = [] then Some (sgn * x)
             else (case signed_int (drop 1 e) of
                     None \<Rightarrow> None
                   | Some k \<Rightarrow> Some (sgn * x * (if k < 0 then 1 / 10 ^ nat (- k) else 10 ^ nat k))))"

text \<open>Modelled from the spec: the value of a scalar line is its trailing numeric token
  (absent scanner's scalar extraction).\<close>

definition scalar_value :: "string \<Rightarrow> real option" where
  "scalar_value line = (case tokens line of [] \<Rightarrow> None | t # ts \<Rightarrow> parse_float (last (t # ts)))"

text \<open>Modelled from the spec: a scalar rule of the section catalogue, its field name and
  its textual marker (absent scanner's catalogue).\<close>

record scalar_rule =
  field :: string
  marker :: string

text \<open>Modelled from the spec: one pass over the lines for one scalar rule; each marker
  line stores its value under the field, a marker line without a numeric trailing token
  is a hard parse failure (absent scanner's scalar extraction).\<close>

fun scan_scalar :: "scalar_rule \<Rightarrow> string list \<Rightarrow> pydict \<Rightarrow> exn + pydict" where
  "scan_scalar r [] d = Inr d"
| "scan_scalar r (l # ls) d =
     (if has_marker (marker r) l
      then (case scalar_value l of
              None \<Rightarrow> Inl (OtherError ''ValueError'')
            | Some x \<Rightarrow> scan_scalar r ls (fmupd (field r) (PFloat x) d))
      else scan_scalar r ls d)"

text \<open>Modelled from the spec: the energy section, a labelled \<^verbatim>\<open>ENERGY|\<close> line (absent
  scanner's catalogue).\<close>

definition energy_rule :: scalar_rule where
  "energy_rule = \<lparr>field = ''energy'', marker = ''ENERGY|''\<rparr>"

text \<open>Modelled from the spec: the scan of a log for the energy (absent scanner).\<close>

definition scan_energy :: "string \<Rightarrow> exn + pydict" where
  "scan_energy output_string = scan_scalar energy_rule (log_lines output_string) fmempty"

text \<open>A log in which the energy line occurs twice, first with 10, then with -5.5.\<close>

definition two_energies :: string where
  "two_energies =
     '' SCF run converged in 9 steps'' @ [CHR 0x0A] @
     '' ENERGY| Total FORCE_EVAL ( QS ) energy (a.u.): 10'' @ [CHR 0x0A] @
     '' OPTIMIZATION STEP: 2'' @ [CHR 0x0A] @
     '' ENERGY| Total FORCE_EVAL ( QS ) energy (a.u.): -5.5'' @ [CHR 0x0A] @
     '' PROGRAM ENDED''"

section \<open>Basic facts\<close>

lemma bnd_Inr [simp]: "bnd (Inr x) f = f x"
  by (simp add: bnd_def)

lemma bnd_Inl [simp]: "bnd (Inl e) f = Inl e"
  by (simp add: bnd_def)

lemma dict_getitem_Some: "fmlookup d k = Some v \<Longrightarrow> dict_getitem d k = Inr v"
  by (simp add: dict_getitem_def)

lemma py_sub_PInt [simp]: "py_sub (PInt i) (PInt j) = Inr (PInt (i - j))"
  by (simp add: py_sub_def)

lemma py_sub_PFloat [simp]: "py_sub (PFloat x) (PFloat y) = Inr (PFloat (x - y))"
  by (simp add: py_sub_def)

lemma py_gt_PInt [simp]: "py_gt (PInt i) (PInt j) = Inr (i > j)"
  by (simp add: py_gt_def)

lemma py_sub_not_IndexError: "py_sub a b \<noteq> Inl IndexError"
  by (simp add: py_sub_def split: option.splits num.splits)

lemma seq_index_py_pos:
  "- int (length xs) \<le> i \<Longrightarrow> i < int (length xs) \<Longrightarrow>
     seq_index xs i = Inr (xs ! py_pos (length xs) i)"
  by (simp add: seq_index_def py_pos_def)

lemma py_pos_lt: "- int n \<le> i \<Longrightarrow> i < int n \<Longrightarrow> py_pos n i < n"
  by (auto simp: py_pos_def)

lemma bnd_eq_Inr_iff: "bnd m f = Inr r \<longleftrightarrow> (\<exists>x. m = Inr x \<and> f x = Inr r)"
  by (cases m) simp_all

section \<open>Outcome of the stdout stage\<close>

lemma parse_stdout_scanned:
  assumes "retrieved c = Some folder"
    and "folder (output_filename c) = Some (Inr txt)"
    and "parse_cp2k_output c txt (sections (klass c)) = Inr d"
  shows "parse_stdout c s =
     ((if ''geo_not_converged'' |\<in>| fmdom d
       then Inr (Inl ERROR_GEOMETRY_CONVERGENCE_NOT_REACHED)
       else if ''uks_needed'' |\<in>| fmdom d then Inr (Inl ERROR_UKS_NEEDED)
       else if ''aborted'' |\<in>| fmdom d then Inr (Inl ERROR_OUTPUT_CONTAINS_ABORT)
       else Inr (Inr d)),
      log_event Output_scanned (log_event Stdout_read (log_event Stdout_listed s)))"
  using assms by (simp add: parse_stdout_def Let_def)

text \<open>
  Claim C1. Whatever mapping the scanner returns, \<^verbatim>\<open>_parse_stdout\<close> reports
  \<^verbatim>\<open>ERROR_GEOMETRY_CONVERGENCE_NOT_REACHED\<close> if \<^verbatim>\<open>geo_not_converged\<close> is a key of it,
  otherwise \<^verbatim>\<open>ERROR_UKS_NEEDED\<close> if \<^verbatim>\<open>uks_needed\<close> is, otherwise
  \<^verbatim>\<open>ERROR_OUTPUT_CONTAINS_ABORT\<close> if \<^verbatim>\<open>aborted\<close> is, and otherwise no error code but
  the mapping itself (the normal outcome); \<^verbatim>\<open>parse\<close> returns the same code in the three
  error cases. Exactly one outcome, by first match in this order.
\<close>

theorem outcome_precedence:
  assumes "retrieved c = Some folder"
    and "folder (output_filename c) = Some (Inr txt)"
    and "parse_cp2k_output c txt (sections (klass c)) = Inr d"
  shows "fst (parse_stdout c s) =
           Inr (if ''geo_not_converged'' |\<in>| fmdom d
                then Inl ERROR_GEOMETRY_CONVERGENCE_NOT_REACHED
                else if ''uks_needed'' |\<in>| fmdom d then Inl ERROR_UKS_NEEDED
                else if ''aborted'' |\<in>| fmdom d then Inl ERROR_OUTPUT_CONTAINS_ABORT
                else Inr d)
       \<and> (''geo_not_converged'' |\<in>| fmdom d \<longrightarrow>
            fst (parse c s) = Inr ERROR_GEOMETRY_CONVERGENCE_NOT_REACHED)
       \<and> (''geo_not_converged'' |\<notin>| fmdom d \<and> ''uks_needed'' |\<in>| fmdom d \<longrightarrow>
            fst (parse c s) = Inr ERROR_UKS_NEEDED)
       \<and> (''geo_not_converged'' |\<notin>| fmdom d \<and> ''uks_needed'' |\<notin>| fmdom d
            \<and> ''aborted'' |\<in>| fmdom d \<longrightarrow>
            fst (parse c s) = Inr ERROR_OUTPUT_CONTAINS_ABORT)"
  using assms by (simp add: parse_def parse_stdout_scanned [OF assms])

theorem outcome_precedence_witness:
  "fst (parse_stdout (sample_calc Cp2kAdvancedParser all_sentinels) fresh)
     = Inr (Inl ERROR_GEOMETRY_CONVERGENCE_NOT_REACHED)
   \<and> fst (parse (sample_calc Cp2kAdvancedParser all_sentinels) fresh)
     = Inr ERROR_GEOMETRY_CONVERGENCE_NOT_REACHED"
  using outcome_precedence [of "sample_calc Cp2kAdvancedParser all_sentinels"
      "[''aiida.out'' \<mapsto> Inr ''log'']" "''log''" all_sentinels fresh]
  by (simp add: sample_calc_def all_sentinels_def)

section \<open>The band-gap block\<close>

lemma lumo_indices_lists:
  assumes "fmlookup d ''init_nel_spin1'' = Some (PInt l1)"
    and "fmlookup d ''init_nel_spin2'' = Some (PInt l2)"
    and "fmlookup d ''eigen_spin1_au'' = Some (PList e1)"
    and "fmlookup d ''eigen_spin2_au'' = Some (PList e2)"
  shows "lumo_indices d =
           Inr (PInt (fst (clamp_idx l1 l2 (length e1) (length e2))),
                PInt (snd (clamp_idx l1 l2 (length e1) (length e2))))"
  using assms by (simp add: lumo_indices_def dict_getitem_Some clamp_idx_def)

lemma gap_block_lists:
  assumes "fmlookup d ''init_nel_spin1'' = Some (PInt l1)"
    and "fmlookup d ''init_nel_spin2'' = Some (PInt l2)"
    and "fmlookup d ''eigen_spin1_au'' = Some (PList e1)"
    and "fmlookup d ''eigen_spin2_au'' = Some (PList e2)"
  shows "gap_block d = gaps d e1 e2 (fst (clamp_idx l1 l2 (length e1) (length e2)))
        (snd (clamp_idx l1 l2 (length e1) (length e2)))"
  by (simp add: gap_block_def lumo_indices_lists [OF assms] dict_getitem_Some assms gaps_def)

lemma bandgap_uks:
  assumes "fmlookup d ''dft_type'' = Some t" and "t \<noteq> PStr ''RKS''"
    and "fmlookup d ''init_nel_spin1'' = Some (PInt l1)"
    and "fmlookup d ''init_nel_spin2'' = Some (PInt l2)"
    and "fmlookup d ''eigen_spin1_au'' = Some (PList e1)"
    and "fmlookup d ''eigen_spin2_au'' = Some (PList e2)"
  shows "bandgap d = gaps d e1 e2 (fst (clamp_idx l1 l2 (length e1) (length e2)))
        (snd (clamp_idx l1 l2 (length e1) (length e2)))"
  by (simp add: bandgap_def dict_getitem_Some assms(1,2) gap_block_lists [OF assms(3-6)])

lemma bandgap_rks:
  assumes "fmlookup d ''dft_type'' = Some (PStr ''RKS'')"
    and "fmlookup d ''init_nel_spin1'' = Some (PInt l1)"
    and "fmlookup d ''init_nel_spin2'' = Some (PInt l2)"
    and "fmlookup d ''eigen_spin1_au'' = Some (PList e1)"
  shows "bandgap d = gaps (fmupd ''eigen_spin2_au'' (PList e1) d) e1 e1
        (fst (clamp_idx l1 l2 (length e1) (length e1)))
        (snd (clamp_idx l1 l2 (length e1) (length e1)))"
proof -
  let ?d = "fmupd ''eigen_spin2_au'' (PList e1) d"
  have a: "fmlookup ?d ''init_nel_spin1'' = Some (PInt l1)"
    and b: "fmlookup ?d ''init_nel_spin2'' = Some (PInt l2)"
    and c: "fmlookup ?d ''eigen_spin1_au'' = Some (PList e1)"
    and e: "fmlookup ?d ''eigen_spin2_au'' = Some (PList e1)"
    using assms by simp_all
  show ?thesis
    by (simp add: bandgap_def dict_getitem_Some assms(1,4) gap_block_lists [OF a b c e])
qed

lemma gaps_floats:
  assumes "- int (length xs1) \<le> i1 - 1" and "i1 < int (length xs1)"
    and "- int (length xs2) \<le> i2 - 1" and "i2 < int (length xs2)"
  shows "gaps d (map PFloat xs1) (map PFloat xs2) i1 i2 =
     Inr (fmupd ''bandgap_spin2_au''
            (PFloat (xs2 ! py_pos (length xs2) i2 - xs2 ! py_pos (length xs2) (i2 - 1)))
         (fmupd ''bandgap_spin1_au''
            (PFloat (xs1 ! py_pos (length xs1) i1 - xs1 ! py_pos (length xs1) (i1 - 1))) d))"
proof -
  have a: "seq_index (map PFloat xs1) (i1 - 1) = Inr (PFloat (xs1 ! py_pos (length xs1) (i1 - 1)))"
    using assms(1,2) by (simp add: seq_index_py_pos py_pos_lt)
  have b: "seq_index (map PFloat xs2) (i2 - 1) = Inr (PFloat (xs2 ! py_pos (length xs2) (i2 - 1)))"
    using assms(3,4) by (simp add: seq_index_py_pos py_pos_lt)
  have c: "seq_index (map PFloat xs1) i1 = Inr (PFloat (xs1 ! py_pos (length xs1) i1))"
    using assms(1,2) by (simp add: seq_index_py_pos py_pos_lt)
  have e: "seq_index (map PFloat xs2) i2 = Inr (PFloat (xs2 ! py_pos (length xs2) i2))"
    using assms(3,4) by (simp add: seq_index_py_pos py_pos_lt)
  show ?thesis by (simp add: gaps_def a b c e)
qed

lemma gap_block_shape:
  "gap_block d = Inr r \<Longrightarrow>
     \<exists>g1 g2. r = fmupd ''bandgap_spin2_au'' g2 (fmupd ''bandgap_spin1_au'' g1 d)"
  by (auto simp: gap_block_def bnd_eq_Inr_iff split: prod.splits)

lemma bandgap_shape:
  assumes "bandgap d = Inr r"
  shows "\<exists>d' g1 g2. r = fmupd ''bandgap_spin2_au'' g2 (fmupd ''bandgap_spin1_au'' g1 d')
           \<and> (d' = d \<or> (\<exists>e. d' = fmupd ''eigen_spin2_au'' e d))"
  using assms
  by (auto simp: bandgap_def bnd_eq_Inr_iff split: if_splits dest!: gap_block_shape)

lemma bandgap_keeps:
  assumes "bandgap d = Inr r"
    and "k \<noteq> ''eigen_spin2_au''" and "k \<noteq> ''bandgap_spin1_au''" and "k \<noteq> ''bandgap_spin2_au''"
  shows "fmlookup r k = fmlookup d k"
  using bandgap_shape [OF assms(1)] assms(2-4) by auto

lemma py_sub_num:
  assumes "as_num a \<noteq> None" and "as_num b \<noteq> None"
  shows "\<exists>g. py_sub a b = Inr g"
  using assms by (auto simp: py_sub_def split: num.splits)

lemma gaps_lists:
  assumes "- int (length e1) \<le> i1 - 1" and "i1 < int (length e1)"
    and "- int (length e2) \<le> i2 - 1" and "i2 < int (length e2)"
  shows "gaps d e1 e2 i1 i2 =
     bnd (py_sub (e1 ! py_pos (length e1) i1) (e1 ! py_pos (length e1) (i1 - 1))) (\<lambda>g1.
     bnd (py_sub (e2 ! py_pos (length e2) i2) (e2 ! py_pos (length e2) (i2 - 1))) (\<lambda>g2.
     Inr (fmupd ''bandgap_spin2_au'' g2 (fmupd ''bandgap_spin1_au'' g1 d))))"
proof -
  have a: "seq_index e1 (i1 - 1) = Inr (e1 ! py_pos (length e1) (i1 - 1))"
    using assms(1,2) by (simp add: seq_index_py_pos)
  have b: "seq_index e2 (i2 - 1) = Inr (e2 ! py_pos (length e2) (i2 - 1))"
    using assms(3,4) by (simp add: seq_index_py_pos)
  have c: "seq_index e1 i1 = Inr (e1 ! py_pos (length e1) i1)"
    using assms(1,2) by (simp add: seq_index_py_pos)
  have e: "seq_index e2 i2 = Inr (e2 ! py_pos (length e2) i2)"
    using assms(3,4) by (simp add: seq_index_py_pos)
  show ?thesis by (simp add: gaps_def a b c e)
qed

text \<open>
  Claim C3, amended. Take a result mapping whose two eigenvalue arrays are non-empty lists
  (for an \<^verbatim>\<open>RKS\<close> run the second array is the copy of the first) and whose occupations
  are integers. If the occupation of either channel lies past the last valid index of
  that channel's array, the indices of both channels are set to the last index of their
  own array, and the block computes \<^verbatim>\<open>gap = eigen[idx] - eigen[idx-1]\<close> at these indices,
  read with Python's indexing: no lookup raises, and when the entries are numbers the
  block returns. The case \<^verbatim>\<open>init_nel_spin1 == len(eigen_spin1_au)\<close> is one such.
\<close>

theorem bandgap_clamp:
  assumes "fmlookup d ''dft_type'' = Some t"
    and "fmlookup d ''eigen_spin1_au'' = Some (PList e1)"
    and "if t = PStr ''RKS'' then e2 = e1
         else fmlookup d ''eigen_spin2_au'' = Some (PList e2)"
    and "fmlookup d ''init_nel_spin1'' = Some (PInt l1)"
    and "fmlookup d ''init_nel_spin2'' = Some (PInt l2)"
    and "e1 \<noteq> []" and "e2 \<noteq> []"
    and "l1 > int (length e1) - 1 \<or> l2 > int (length e2) - 1"
  shows "lumo_indices (if t = PStr ''RKS'' then fmupd ''eigen_spin2_au'' (PList e1) d else d)
           = Inr (PInt (int (length e1) - 1), PInt (int (length e2) - 1))
       \<and> bandgap d =
           bnd (py_sub (e1 ! py_pos (length e1) (int (length e1) - 1))
                       (e1 ! py_pos (length e1) (int (length e1) - 1 - 1))) (\<lambda>g1.
           bnd (py_sub (e2 ! py_pos (length e2) (int (length e2) - 1))
                       (e2 ! py_pos (length e2) (int (length e2) - 1 - 1))) (\<lambda>g2.
           Inr (fmupd ''bandgap_spin2_au'' g2 (fmupd ''bandgap_spin1_au'' g1
                 (if t = PStr ''RKS'' then fmupd ''eigen_spin2_au'' (PList e1) d else d)))))
       \<and> ((\<forall>x \<in> set e1 \<union> set e2. as_num x \<noteq> None) \<longrightarrow> (\<exists>r. bandgap d = Inr r))"
proof -
  let ?d = "if t = PStr ''RKS'' then fmupd ''eigen_spin2_au'' (PList e1) d else d"
  let ?n1 = "int (length e1)" and ?n2 = "int (length e2)"
  have n: "1 \<le> ?n1" "1 \<le> ?n2"
    using assms(6,7) by (cases e1, simp_all) (cases e2, simp_all)
  have lk: "fmlookup ?d ''init_nel_spin1'' = Some (PInt l1)"
      "fmlookup ?d ''init_nel_spin2'' = Some (PInt l2)"
      "fmlookup ?d ''eigen_spin1_au'' = Some (PList e1)"
      "fmlookup ?d ''eigen_spin2_au'' = Some (PList e2)"
    using assms(2-5) by (simp_all split: if_splits)
  have cl: "clamp_idx l1 l2 (length e1) (length e2) = (?n1 - 1, ?n2 - 1)"
    using assms(8) by (auto simp: clamp_idx_def)
  have one: "lumo_indices ?d = Inr (PInt (?n1 - 1), PInt (?n2 - 1))"
    using lumo_indices_lists [OF lk] cl by simp
  have bg: "bandgap d = gaps ?d e1 e2 (?n1 - 1) (?n2 - 1)"
  proof (cases "t = PStr ''RKS''")
    case True
    then show ?thesis
      using bandgap_rks [of d l1 l2 e1] assms(1-5) cl by simp
  next
    case False
    then show ?thesis
      using bandgap_uks [of d t l1 l2 e1 e2] assms(1-5) cl by simp
  qed
  have two: "bandgap d =
           bnd (py_sub (e1 ! py_pos (length e1) (?n1 - 1))
                       (e1 ! py_pos (length e1) (?n1 - 1 - 1))) (\<lambda>g1.
           bnd (py_sub (e2 ! py_pos (length e2) (?n2 - 1))
                       (e2 ! py_pos (length e2) (?n2 - 1 - 1))) (\<lambda>g2.
           Inr (fmupd ''bandgap_spin2_au'' g2 (fmupd ''bandgap_spin1_au'' g1 ?d))))"
    unfolding bg using n by (intro gaps_lists) linarith+
  have three: "\<exists>r. bandgap d = Inr r" if num: "\<forall>x \<in> set e1 \<union> set e2. as_num x \<noteq> None"
  proof -
    have p: "py_pos (length e1) (?n1 - 1) < length e1"
        "py_pos (length e1) (?n1 - 1 - 1) < length e1"
        "py_pos (length e2) (?n2 - 1) < length e2"
        "py_pos (length e2) (?n2 - 1 - 1) < length e2"
      using n by (auto intro!: py_pos_lt)
    from p num have
      "as_num (e1 ! py_pos (length e1) (?n1 - 1)) \<noteq> None"
      "as_num (e1 ! py_pos (length e1) (?n1 - 1 - 1)) \<noteq> None"
      "as_num (e2 ! py_pos (length e2) (?n2 - 1)) \<noteq> None"
      "as_num (e2 ! py_pos (length e2) (?n2 - 1 - 1)) \<noteq> None"
      by (simp_all add: nth_mem)
    then obtain g1 g2 where
      "py_sub (e1 ! py_pos (length e1) (?n1 - 1)) (e1 ! py_pos (length e1) (?n1 - 1 - 1)) = Inr g1"
      "py_sub (e2 ! py_pos (length e2) (?n2 - 1)) (e2 ! py_pos (length e2) (?n2 - 1 - 1)) = Inr g2"
      using py_sub_num by metis
    then show ?thesis using two by simp
  qed
  show ?thesis using one two three by blast
qed

theorem bandgap_clamp_witness:
  "fmlookup uks_crossed ''init_nel_spin1'' = Some (PInt (int (length [-1, -0.5, 0.25 :: real])))
   \<and> lumo_indices uks_crossed = Inr (PInt 2, PInt 3)
   \<and> bandgap uks_crossed =
       Inr (fmupd ''bandgap_spin2_au'' (PFloat 1.25)
           (fmupd ''bandgap_spin1_au'' (PFloat 0.75) uks_crossed))"
  using bandgap_clamp [of uks_crossed "PStr ''UKS''" "map PFloat [-1, -0.5, 0.25]"
      "map PFloat [-0.75, -0.5, 0.25, 1.5]" 3 1]
  by (simp add: uks_crossed_def py_pos_def)

text \<open>
  Claim C3, as stated, covers every mapping with eigenvalue arrays. With an empty array
  in one channel the fallback index is -1 and the lookups raise: here
  \<^verbatim>\<open>init_nel_spin1 == len(eigen_spin1_au) == 1\<close> and the second array is empty, and the
  block raises \<^verbatim>\<open>IndexError\<close> instead of yielding a gap.
\<close>

theorem bandgap_clamp_empty_counterexample:
  "fmlookup uks_empty_second ''eigen_spin1_au'' = Some (PList [PFloat (- 1)])
   \<and> fmlookup uks_empty_second ''init_nel_spin1'' = Some (PInt (int (length [PFloat (- 1)])))
   \<and> fmlookup uks_empty_second ''eigen_spin2_au'' = Some (PList [])
   \<and> bandgap uks_empty_second = Inl IndexError"
  using bandgap_uks [of uks_empty_second "PStr ''UKS''" 1 0 "[PFloat (- 1)]" "[]"]
  by (simp add: uks_empty_second_def clamp_idx_def gaps_def seq_index_def)

lemma gaps_not_IndexError:
  assumes "- int (length e1) \<le> i1 - 1" and "i1 < int (length e1)"
    and "- int (length e2) \<le> i2 - 1" and "i2 < int (length e2)"
  shows "gaps d e1 e2 i1 i2 \<noteq> Inl IndexError"
proof -
  have a: "seq_index e1 (i1 - 1) = Inr (e1 ! py_pos (length e1) (i1 - 1))"
    using assms(1,2) by (simp add: seq_index_py_pos)
  have b: "seq_index e2 (i2 - 1) = Inr (e2 ! py_pos (length e2) (i2 - 1))"
    using assms(3,4) by (simp add: seq_index_py_pos)
  have c: "seq_index e1 i1 = Inr (e1 ! py_pos (length e1) i1)"
    using assms(1,2) by (simp add: seq_index_py_pos)
  have e: "seq_index e2 i2 = Inr (e2 ! py_pos (length e2) i2)"
    using assms(3,4) by (simp add: seq_index_py_pos)
  show ?thesis
    by (auto simp: gaps_def a b c e bnd_def py_sub_not_IndexError split: sum.splits)
qed

lemma clamp_idx_range:
  assumes "0 < n1" and "0 < n2" and "0 \<le> l1" and "0 \<le> l2"
  shows "- int n1 \<le> fst (clamp_idx l1 l2 n1 n2) - 1 \<and> fst (clamp_idx l1 l2 n1 n2) < int n1
       \<and> - int n2 \<le> snd (clamp_idx l1 l2 n1 n2) - 1 \<and> snd (clamp_idx l1 l2 n1 n2) < int n2"
  using assms by (auto simp: clamp_idx_def)

lemma lumo_indices_same:
  assumes "fmlookup d ''init_nel_spin1'' = fmlookup d ''init_nel_spin2''"
    and "fmlookup d ''eigen_spin1_au'' = fmlookup d ''eigen_spin2_au''"
    and "lumo_indices d = Inr (i1, i2)"
  shows "i1 = i2"
  using assms
  by (auto simp: lumo_indices_def bnd_eq_Inr_iff dict_getitem_def
      split: option.splits if_splits)

lemma gap_block_same:
  assumes "fmlookup d ''init_nel_spin1'' = fmlookup d ''init_nel_spin2''"
    and "fmlookup d ''eigen_spin1_au'' = fmlookup d ''eigen_spin2_au''"
    and "gap_block d = Inr r"
  shows "\<exists>g. r = fmupd ''bandgap_spin2_au'' g (fmupd ''bandgap_spin1_au'' g d)"
proof -
  from assms(3) obtain i1 i2 where li: "lumo_indices d = Inr (i1, i2)"
    by (cases "lumo_indices d") (auto simp: gap_block_def)
  have i: "i2 = i1" using lumo_indices_same [OF assms(1,2) li] by simp
  have e: "dict_getitem d ''eigen_spin2_au'' = dict_getitem d ''eigen_spin1_au''"
    using assms(2) by (simp add: dict_getitem_def)
  show ?thesis
    using assms(3) unfolding gap_block_def li i e
    by (auto simp: bnd_eq_Inr_iff)
qed

lemma bandgap_rks_shape:
  assumes "fmlookup d ''dft_type'' = Some (PStr ''RKS'')" and "bandgap d = Inr r"
  shows "\<exists>e. fmlookup d ''eigen_spin1_au'' = Some e
           \<and> gap_block (fmupd ''eigen_spin2_au'' e d) = Inr r"
  using assms
  by (auto simp: bandgap_def bnd_eq_Inr_iff dict_getitem_def split: option.splits)

text \<open>
  Claim C4. For an \<^verbatim>\<open>RKS\<close> mapping the block stores the first channel's eigenvalue
  array under \<^verbatim>\<open>eigen_spin2_au\<close> before the gaps are computed: whenever it returns, both
  channels hold the array of the first. A restricted run has the same occupation in both
  channels, and then both gaps are the same value. On a non-empty list of floats with a
  non-negative integer occupation the block does return; with the array
  \<^verbatim>\<open>[-1.0, -0.5, 0.2, 0.8]\<close> and both occupations 2 both gaps are 0.7.
\<close>

theorem rks_equal_gaps:
  assumes "fmlookup d ''dft_type'' = Some (PStr ''RKS'')"
  shows "(\<forall>r. bandgap d = Inr r \<longrightarrow>
            fmlookup r ''eigen_spin2_au'' = fmlookup d ''eigen_spin1_au''
          \<and> fmlookup r ''eigen_spin1_au'' = fmlookup d ''eigen_spin1_au''
          \<and> fmlookup d ''eigen_spin1_au'' \<noteq> None
          \<and> (fmlookup d ''init_nel_spin1'' = fmlookup d ''init_nel_spin2'' \<longrightarrow>
               fmlookup r ''bandgap_spin1_au'' = fmlookup r ''bandgap_spin2_au''
             \<and> fmlookup r ''bandgap_spin1_au'' \<noteq> None))
       \<and> (fmlookup d ''eigen_spin1_au'' = Some (PList (map PFloat xs))
            \<and> fmlookup d ''init_nel_spin1'' = Some (PInt l)
            \<and> fmlookup d ''init_nel_spin2'' = Some (PInt l)
            \<and> xs \<noteq> [] \<and> 0 \<le> l \<longrightarrow>
          bandgap d =
            Inr (fmupd ''bandgap_spin2_au''
                   (PFloat (xs ! py_pos (length xs) (min l (int (length xs) - 1))
                            - xs ! py_pos (length xs) (min l (int (length xs) - 1) - 1)))
                (fmupd ''bandgap_spin1_au''
                   (PFloat (xs ! py_pos (length xs) (min l (int (length xs) - 1))
                            - xs ! py_pos (length xs) (min l (int (length xs) - 1) - 1)))
                (fmupd ''eigen_spin2_au'' (PList (map PFloat xs)) d))))"
proof -
  have one: "fmlookup r ''eigen_spin2_au'' = fmlookup d ''eigen_spin1_au''
          \<and> fmlookup r ''eigen_spin1_au'' = fmlookup d ''eigen_spin1_au''
          \<and> fmlookup d ''eigen_spin1_au'' \<noteq> None
          \<and> (fmlookup d ''init_nel_spin1'' = fmlookup d ''init_nel_spin2'' \<longrightarrow>
               fmlookup r ''bandgap_spin1_au'' = fmlookup r ''bandgap_spin2_au''
             \<and> fmlookup r ''bandgap_spin1_au'' \<noteq> None)"
    if ret: "bandgap d = Inr r" for r
  proof -
    from bandgap_rks_shape [OF assms ret] obtain e where
      e: "fmlookup d ''eigen_spin1_au'' = Some e"
      and gb: "gap_block (fmupd ''eigen_spin2_au'' e d) = Inr r"
      by blast
    let ?d = "fmupd ''eigen_spin2_au'' e d"
    from gap_block_shape [OF gb] obtain g1 g2 where
      r: "r = fmupd ''bandgap_spin2_au'' g2 (fmupd ''bandgap_spin1_au'' g1 ?d)"
      by blast
    have a: "fmlookup r ''eigen_spin2_au'' = fmlookup d ''eigen_spin1_au''"
        "fmlookup r ''eigen_spin1_au'' = fmlookup d ''eigen_spin1_au''"
      using r e by simp_all
    have b: "fmlookup r ''bandgap_spin1_au'' = fmlookup r ''bandgap_spin2_au''
             \<and> fmlookup r ''bandgap_spin1_au'' \<noteq> None"
      if eq: "fmlookup d ''init_nel_spin1'' = fmlookup d ''init_nel_spin2''"
    proof -
      have "fmlookup ?d ''init_nel_spin1'' = fmlookup ?d ''init_nel_spin2''"
          "fmlookup ?d ''eigen_spin1_au'' = fmlookup ?d ''eigen_spin2_au''"
        using eq e by simp_all
      from gap_block_same [OF this gb] obtain g where
        "r = fmupd ''bandgap_spin2_au'' g (fmupd ''bandgap_spin1_au'' g ?d)" by blast
      then show ?thesis by simp
    qed
    have c: "fmlookup d ''eigen_spin1_au'' \<noteq> None" using e by simp
    show ?thesis using a b c by blast
  qed
  have two: "bandgap d =
            Inr (fmupd ''bandgap_spin2_au''
                   (PFloat (xs ! py_pos (length xs) (min l (int (length xs) - 1))
                            - xs ! py_pos (length xs) (min l (int (length xs) - 1) - 1)))
                (fmupd ''bandgap_spin1_au''
                   (PFloat (xs ! py_pos (length xs) (min l (int (length xs) - 1))
                            - xs ! py_pos (length xs) (min l (int (length xs) - 1) - 1)))
                (fmupd ''eigen_spin2_au'' (PList (map PFloat xs)) d)))"
    if h: "fmlookup d ''eigen_spin1_au'' = Some (PList (map PFloat xs))"
      "fmlookup d ''init_nel_spin1'' = Some (PInt l)"
      "fmlookup d ''init_nel_spin2'' = Some (PInt l)"
      "xs \<noteq> []" "0 \<le> l"
  proof -
    have cl: "clamp_idx l l (length xs) (length xs)
                = (min l (int (length xs) - 1), min l (int (length xs) - 1))"
      by (auto simp: clamp_idx_def min_def)
    have n: "1 \<le> int (length xs)" using h(4) by (cases xs) simp_all
    have rg: "- int (length xs) \<le> min l (int (length xs) - 1) - 1"
        "min l (int (length xs) - 1) < int (length xs)"
      using n h(5) by linarith+
    show ?thesis
      using bandgap_rks [OF assms h(2,3,1)] cl rg gaps_floats [of xs _ xs]
      by simp
  qed
  show ?thesis using one two by blast
qed

theorem rks_equal_gaps_witness:
  "bandgap rks_sample =
     Inr (fmupd ''bandgap_spin2_au'' (PFloat 0.7)
         (fmupd ''bandgap_spin1_au'' (PFloat 0.7)
         (fmupd ''eigen_spin2_au'' (PList (map PFloat [-1, -0.5, 0.2, 0.8])) rks_sample)))
   \<and> fmlookup (fmupd ''bandgap_spin2_au'' (PFloat 0.7)
         (fmupd ''bandgap_spin1_au'' (PFloat 0.7)
         (fmupd ''eigen_spin2_au'' (PList (map PFloat [-1, -0.5, 0.2, 0.8])) rks_sample)))
        ''eigen_spin2_au''
       = fmlookup rks_sample ''eigen_spin1_au''"
proof -
  let ?r = "fmupd ''bandgap_spin2_au'' (PFloat 0.7)
         (fmupd ''bandgap_spin1_au'' (PFloat 0.7)
         (fmupd ''eigen_spin2_au'' (PList (map PFloat [-1, -0.5, 0.2, 0.8])) rks_sample))"
  have t: "fmlookup rks_sample ''dft_type'' = Some (PStr ''RKS'')"
    by (simp add: rks_sample_def)
  note T = rks_equal_gaps [OF t, of "[-1, -0.5, 0.2, 0.8]" 2]
  have h: "fmlookup rks_sample ''eigen_spin1_au'' = Some (PList (map PFloat [-1, -0.5, 0.2, 0.8]))
      \<and> fmlookup rks_sample ''init_nel_spin1'' = Some (PInt 2)
      \<and> fmlookup rks_sample ''init_nel_spin2'' = Some (PInt 2)
      \<and> [-1, -0.5, 0.2, 0.8 :: real] \<noteq> [] \<and> (0::int) \<le> 2"
    by (simp add: rks_sample_def)
  from T h have bg: "bandgap rks_sample = Inr ?r"
    by (simp add: py_pos_def)
  from T bg have "fmlookup ?r ''eigen_spin2_au'' = fmlookup rks_sample ''eigen_spin1_au''"
    by blast
  with bg show ?thesis by blast
qed

text \<open>
  Claim C10. With a non-empty first eigenvalue array (and, unless the run is \<^verbatim>\<open>RKS\<close>, a
  non-empty second one) and non-negative integer occupations, the band-gap block never
  raises \<^verbatim>\<open>IndexError\<close>: indices past the end are replaced by the last positions, and
  a LUMO index of 0 reads the HOMO at index -1, the last eigenvalue, so that on float
  arrays the block returns \<^verbatim>\<open>eigen[0] - eigen[len-1]\<close> for that channel.
\<close>

theorem bandgap_no_index_error:
  assumes "fmlookup d ''dft_type'' = Some t"
    and "fmlookup d ''eigen_spin1_au'' = Some (PList e1)"
    and "if t = PStr ''RKS'' then e2 = e1
         else fmlookup d ''eigen_spin2_au'' = Some (PList e2)"
    and "fmlookup d ''init_nel_spin1'' = Some (PInt l1)"
    and "fmlookup d ''init_nel_spin2'' = Some (PInt l2)"
    and "e1 \<noteq> []" and "e2 \<noteq> []" and "0 \<le> l1" and "0 \<le> l2"
  shows "bandgap d \<noteq> Inl IndexError
       \<and> lumo_indices (if t = PStr ''RKS'' then fmupd ''eigen_spin2_au'' (PList e1) d else d)
           = Inr (if l1 > int (length e1) - 1 \<or> l2 > int (length e2) - 1
                  then (PInt (int (length e1) - 1), PInt (int (length e2) - 1))
                  else (PInt l1, PInt l2))
       \<and> (l1 = 0 \<and> l2 \<le> int (length e2) - 1 \<and> e1 = map PFloat xs1 \<and> e2 = map PFloat xs2 \<longrightarrow>
            bandgap d =
              Inr (fmupd ''bandgap_spin2_au''
                     (PFloat (xs2 ! nat l2 - xs2 ! py_pos (length xs2) (l2 - 1)))
                  (fmupd ''bandgap_spin1_au''
                     (PFloat (xs1 ! 0 - xs1 ! (length xs1 - 1)))
                  (if t = PStr ''RKS'' then fmupd ''eigen_spin2_au'' (PList e1) d else d))))"
proof -
  let ?d = "if t = PStr ''RKS'' then fmupd ''eigen_spin2_au'' (PList e1) d else d"
  let ?c = "clamp_idx l1 l2 (length e1) (length e2)"
  have n: "0 < length e1" "0 < length e2" using assms(6,7) by simp_all
  have lk: "fmlookup ?d ''init_nel_spin1'' = Some (PInt l1)"
      "fmlookup ?d ''init_nel_spin2'' = Some (PInt l2)"
      "fmlookup ?d ''eigen_spin1_au'' = Some (PList e1)"
      "fmlookup ?d ''eigen_spin2_au'' = Some (PList e2)"
    using assms(2-5) by (simp_all split: if_splits)
  have bg: "bandgap d = gaps ?d e1 e2 (fst ?c) (snd ?c)"
  proof (cases "t = PStr ''RKS''")
    case True
    then show ?thesis
      using bandgap_rks [of d l1 l2 e1] assms(1-5) by simp
  next
    case False
    then show ?thesis
      using bandgap_uks [of d t l1 l2 e1 e2] assms(1-5) by simp
  qed
  have rg: "- int (length e1) \<le> fst ?c - 1 \<and> fst ?c < int (length e1)
       \<and> - int (length e2) \<le> snd ?c - 1 \<and> snd ?c < int (length e2)"
    using clamp_idx_range [OF n assms(8,9)] .
  have one: "bandgap d \<noteq> Inl IndexError"
    using bg rg gaps_not_IndexError [of e1 "fst ?c" e2 "snd ?c" ?d] by simp
  have two: "lumo_indices ?d
           = Inr (if l1 > int (length e1) - 1 \<or> l2 > int (length e2) - 1
                  then (PInt (int (length e1) - 1), PInt (int (length e2) - 1))
                  else (PInt l1, PInt l2))"
    using lumo_indices_lists [OF lk] by (simp add: clamp_idx_def)
  have three: "bandgap d =
              Inr (fmupd ''bandgap_spin2_au''
                     (PFloat (xs2 ! nat l2 - xs2 ! py_pos (length xs2) (l2 - 1)))
                  (fmupd ''bandgap_spin1_au''
                     (PFloat (xs1 ! 0 - xs1 ! (length xs1 - 1))) ?d))"
    if h: "l1 = 0" "l2 \<le> int (length e2) - 1" "e1 = map PFloat xs1" "e2 = map PFloat xs2"
  proof -
    have c: "?c = (0, l2)" using h(1,2) n by (simp add: clamp_idx_def)
    have p: "py_pos (length xs1) 0 = 0" "py_pos (length xs1) (0 - 1) = length xs1 - 1"
        "py_pos (length xs2) l2 = nat l2"
      using n h(3) assms(9) by (auto simp: py_pos_def)
    have "bandgap d = gaps ?d (map PFloat xs1) (map PFloat xs2) 0 l2"
      using bg c h(3,4) by simp
    also have "\<dots> = Inr (fmupd ''bandgap_spin2_au''
            (PFloat (xs2 ! py_pos (length xs2) l2 - xs2 ! py_pos (length xs2) (l2 - 1)))
         (fmupd ''bandgap_spin1_au''
            (PFloat (xs1 ! py_pos (length xs1) 0 - xs1 ! py_pos (length xs1) (0 - 1))) ?d))"
      using gaps_floats [of xs1 0 xs2 l2 ?d] n h assms(9) by simp
    finally show ?thesis using p by simp
  qed
  show ?thesis using one two three by blast
qed

theorem bandgap_no_index_error_witness:
  "bandgap uks_zero \<noteq> Inl IndexError
   \<and> lumo_indices uks_zero = Inr (PInt 0, PInt 2)
   \<and> bandgap uks_zero =
       Inr (fmupd ''bandgap_spin2_au'' (PFloat 0.7)
           (fmupd ''bandgap_spin1_au'' (PFloat (- 1.2)) uks_zero))"
  using bandgap_no_index_error [of uks_zero "PStr ''UKS''" "map PFloat [-1, -0.5, 0.2]"
      "map PFloat [-0.9, -0.4, 0.3, 0.9]" 0 2 "[-1, -0.5, 0.2]" "[-0.9, -0.4, 0.3, 0.9]"]
  by (simp add: uks_zero_def py_pos_def)


section \<open>Promotion of the k-point data\<close>

lemma promote_kpoints_present:
  assumes "fmlookup d ''kpoint_data'' = Some (PDict kp)"
    and "fmlookup kp ''kpoints'' = Some k"
    and "fmlookup kp ''labels'' = Some l"
    and "fmlookup kp ''bands'' = Some b"
    and "fmlookup kp ''bands_unit'' = Some u"
    and "kpoints_check c k BandsData = None"
    and "labels_check c l (BandsData\<lparr>kpoints := Some k\<rparr>) = None"
    and "bands_check c b u (BandsData\<lparr>kpoints := Some k, labels := Some l\<rparr>) = None"
  shows "promote_kpoints c d s =
           Inr (fmdrop ''kpoint_data'' d,
                out ''output_bands''
                  (Bands \<lparr>kpoints = Some k, labels = Some l, bands = Some b, units = Some u\<rparr>) s)"
proof -
  have "''kpoint_data'' |\<in>| fmdom d" using assms(1) by (rule fmdomI)
  then show ?thesis
    using assms
    by (simp add: promote_kpoints_def dict_getitem_Some set_kpoints_def set_labels_def
        set_bands_def BandsData_def)
qed

text \<open>
  Claim C5, amended. When the mapping holds a \<^verbatim>\<open>kpoint_data\<close> table with its four
  entries, the band container accepts them, and the band-gap block, if it runs, returns,
  the advanced parser's \<^verbatim>\<open>_create_output_nodes\<close> emits an \<^verbatim>\<open>output_bands\<close> node whose
  kpoints, labels, bands and units are those of the table, and an
  \<^verbatim>\<open>output_parameters\<close> mapping that no longer has the key \<^verbatim>\<open>kpoint_data\<close>.
\<close>

theorem kpoint_promotion:
  assumes "klass c = Cp2kAdvancedParser"
    and "fmlookup d ''kpoint_data'' = Some (PDict kp)"
    and "fmlookup kp ''kpoints'' = Some k"
    and "fmlookup kp ''labels'' = Some l"
    and "fmlookup kp ''bands'' = Some b"
    and "fmlookup kp ''bands_unit'' = Some u"
    and "(if ''eigen_spin1_au'' |\<in>| fmdom d then bandgap d else Inr d) = Inr d1"
    and "kpoints_check c k BandsData = None"
    and "labels_check c l (BandsData\<lparr>kpoints := Some k\<rparr>) = None"
    and "bands_check c b u (BandsData\<lparr>kpoints := Some k, labels := Some l\<rparr>) = None"
  shows "create_output_nodes c d s =
           (Inr (),
            s\<lparr>outputs := (outputs s)
                 (''output_bands'' \<mapsto>
                    Bands \<lparr>kpoints = Some k, labels = Some l, bands = Some b, units = Some u\<rparr>,
                  ''output_parameters'' \<mapsto> Dict (fmdrop ''kpoint_data'' d1))\<rparr>)
       \<and> ''kpoint_data'' |\<notin>| fmdom (fmdrop ''kpoint_data'' d1)"
proof -
  let ?r = "if ''eigen_spin1_au'' |\<in>| fmdom d then bandgap d else Inr d"
  have "fmlookup d1 ''kpoint_data'' = fmlookup d ''kpoint_data''"
  proof (cases "''eigen_spin1_au'' |\<in>| fmdom d")
    case True
    with assms(7) have "bandgap d = Inr d1" by simp
    then show ?thesis by (rule bandgap_keeps) simp_all
  next
    case False
    with assms(7) show ?thesis by simp
  qed
  then have kd: "fmlookup d1 ''kpoint_data'' = Some (PDict kp)" using assms(2) by simp
  have "create_output_nodes c d s =
      (case ?r of Inl e \<Rightarrow> (Inl e, s)
       | Inr d \<Rightarrow> (case promote_kpoints c d s of Inl e \<Rightarrow> (Inl e, s)
           | Inr (d', s') \<Rightarrow> (Inr (), out ''output_parameters'' (Dict d') s')))"
    by (simp add: create_output_nodes_def assms(1))
  also have "\<dots> = (Inr (), out ''output_parameters'' (Dict (fmdrop ''kpoint_data'' d1))
      (out ''output_bands''
         (Bands \<lparr>kpoints = Some k, labels = Some l, bands = Some b, units = Some u\<rparr>) s))"
    by (simp only: assms(7) promote_kpoints_present [OF kd assms(3-6,8-10)] sum.case prod.case)
  finally show ?thesis by (simp add: out_def)
qed

theorem kpoint_promotion_witness:
  "create_output_nodes (sample_calc Cp2kAdvancedParser with_kpoints) with_kpoints fresh =
     (Inr (),
      fresh\<lparr>outputs := (outputs fresh)
         (''output_bands'' \<mapsto>
            Bands \<lparr>kpoints = Some (PList [PList [PFloat 0, PFloat 0, PFloat 0],
                                         PList [PFloat 0.5, PFloat 0, PFloat 0]]),
                   labels = Some (PList [PList [PInt 0, PStr ''GAMMA''],
                                        PList [PInt 1, PStr ''X'']]),
                   bands = Some (PList [PList [PFloat (-5.1), PFloat 1.3],
                                       PList [PFloat (-4.8), PFloat 1.9]]),
                   units = Some (PStr ''eV'')\<rparr>,
          ''output_parameters'' \<mapsto> Dict (fmdrop ''kpoint_data'' with_kpoints))\<rparr>)
   \<and> ''kpoint_data'' |\<notin>| fmdom (fmdrop ''kpoint_data'' with_kpoints)
   \<and> fmlookup (fmdrop ''kpoint_data'' with_kpoints) ''energy'' = Some (PFloat (-17))"
proof -
  let ?c = "sample_calc Cp2kAdvancedParser with_kpoints"
  let ?k = "PList [PList [PFloat 0, PFloat 0, PFloat 0], PList [PFloat 0.5, PFloat 0, PFloat 0]]"
  let ?l = "PList [PList [PInt 0, PStr ''GAMMA''], PList [PInt 1, PStr ''X'']]"
  let ?b = "PList [PList [PFloat (-5.1), PFloat 1.3], PList [PFloat (-4.8), PFloat 1.9]]"
  have k: "klass ?c = Cp2kAdvancedParser"
    by (simp add: sample_calc_def)
  have a: "fmlookup with_kpoints ''kpoint_data'' = Some (PDict kpoint_table)"
    by (simp add: with_kpoints_def)
  have b: "fmlookup kpoint_table ''kpoints'' = Some ?k"
    by (simp add: kpoint_table_def)
  have c: "fmlookup kpoint_table ''labels'' = Some ?l"
    by (simp add: kpoint_table_def)
  have e: "fmlookup kpoint_table ''bands'' = Some ?b"
    by (simp add: kpoint_table_def)
  have f: "fmlookup kpoint_table ''bands_unit'' = Some (PStr ''eV'')"
    by (simp add: kpoint_table_def)
  have g: "(if ''eigen_spin1_au'' |\<in>| fmdom with_kpoints then bandgap with_kpoints
            else Inr with_kpoints) = Inr with_kpoints"
    by (simp add: with_kpoints_def)
  have v: "kpoints_check ?c ?k BandsData = None"
      "labels_check ?c ?l (BandsData\<lparr>kpoints := Some ?k\<rparr>) = None"
      "bands_check ?c ?b (PStr ''eV'') (BandsData\<lparr>kpoints := Some ?k, labels := Some ?l\<rparr>) = None"
    by (simp_all add: sample_calc_def)
  have h: "fmlookup (fmdrop ''kpoint_data'' with_kpoints) ''energy'' = Some (PFloat (-17))"
    by (simp add: with_kpoints_def)
  show ?thesis
    using kpoint_promotion [OF k a b c e f g v, of fresh] h by simp
qed

text \<open>
  Claim C5, as stated, covers every mapping that contains \<^verbatim>\<open>kpoint_data\<close>. Three such
  mappings for which \<^verbatim>\<open>_create_output_nodes\<close> raises and emits nothing, neither the
  bands node nor the mapping: a table without \<^verbatim>\<open>labels\<close> (\<^verbatim>\<open>KeyError\<close>), a mapping
  whose band-gap block raises \<^verbatim>\<open>IndexError\<close> before the table is looked at, and a
  table that \<^verbatim>\<open>set_bands\<close> rejects.
\<close>

theorem kpoint_promotion_counterexample:
  "''kpoint_data'' |\<in>| fmdom unlabelled_kpoints
   \<and> create_output_nodes (sample_calc Cp2kAdvancedParser unlabelled_kpoints)
        unlabelled_kpoints fresh = (Inl KeyError, fresh)
   \<and> ''kpoint_data'' |\<in>| fmdom empty_channel_with_kpoints
   \<and> create_output_nodes (sample_calc Cp2kAdvancedParser empty_channel_with_kpoints)
        empty_channel_with_kpoints fresh = (Inl IndexError, fresh)
   \<and> ''kpoint_data'' |\<in>| fmdom with_kpoints
   \<and> create_output_nodes (strict_bands_calc with_kpoints) with_kpoints fresh
        = (Inl (OtherError ''ValueError''), fresh)
   \<and> outputs fresh = Map.empty"
proof -
  have a: "''kpoint_data'' |\<in>| fmdom unlabelled_kpoints"
      "''kpoint_data'' |\<in>| fmdom empty_channel_with_kpoints"
      "''kpoint_data'' |\<in>| fmdom with_kpoints"
    by (simp_all add: unlabelled_kpoints_def empty_channel_with_kpoints_def with_kpoints_def)
  have p1: "promote_kpoints (sample_calc Cp2kAdvancedParser unlabelled_kpoints)
      unlabelled_kpoints fresh = Inl KeyError"
    by (simp add: promote_kpoints_def unlabelled_kpoints_def kpoint_table_def
        dict_getitem_def set_kpoints_def sample_calc_def)
  have c1: "create_output_nodes (sample_calc Cp2kAdvancedParser unlabelled_kpoints)
        unlabelled_kpoints fresh = (Inl KeyError, fresh)"
    using p1 by (simp add: create_output_nodes_def sample_calc_def unlabelled_kpoints_def)
  have b2: "bandgap empty_channel_with_kpoints = Inl IndexError"
    using bandgap_uks [of empty_channel_with_kpoints "PStr ''UKS''" 1 0 "[PFloat (- 1)]" "[]"]
    by (simp add: empty_channel_with_kpoints_def clamp_idx_def gaps_def seq_index_def)
  have c2: "create_output_nodes (sample_calc Cp2kAdvancedParser empty_channel_with_kpoints)
        empty_channel_with_kpoints fresh = (Inl IndexError, fresh)"
    using b2 by (simp add: create_output_nodes_def sample_calc_def empty_channel_with_kpoints_def)
  have p3: "promote_kpoints (strict_bands_calc with_kpoints) with_kpoints fresh
      = Inl (OtherError ''ValueError'')"
    by (simp add: promote_kpoints_def with_kpoints_def kpoint_table_def
        dict_getitem_def set_kpoints_def set_labels_def set_bands_def strict_bands_calc_def
        sample_calc_def)
  have c3: "create_output_nodes (strict_bands_calc with_kpoints) with_kpoints fresh
        = (Inl (OtherError ''ValueError''), fresh)"
    using p3 by (simp add: create_output_nodes_def strict_bands_calc_def sample_calc_def
        with_kpoints_def)
  have o: "outputs fresh = Map.empty" by (simp add: fresh_def)
  show ?thesis using a c1 c2 c3 o by simp
qed

section \<open>Failures of the stdout stage\<close>

lemma parse_stdout_missing:
  assumes "retrieved c = Some folder" and "folder (output_filename c) = None"
  shows "parse_stdout c s = (Inr (Inl ERROR_OUTPUT_STDOUT_MISSING), log_event Stdout_listed s)"
  using assms by (simp add: parse_stdout_def Let_def)

lemma parse_stdout_unreadable:
  assumes "retrieved c = Some folder" and "folder (output_filename c) = Some (Inl IOError)"
  shows "parse_stdout c s =
           (Inr (Inl ERROR_OUTPUT_STDOUT_READ), log_event Stdout_read (log_event Stdout_listed s))"
  using assms by (simp add: parse_stdout_def Let_def)

lemma parse_trajectory_missing:
  assumes "retrieved c = Some folder" and "folder (restart_file_name c) = None"
  shows "parse_trajectory c s = (Inl NotExistent, log_event Restart_listed s)"
  using assms by (simp add: parse_trajectory_def Let_def)

lemma parse_code:
  assumes "retrieved c = Some folder" and "parse_stdout c s = (Inr (Inl code), s1)"
  shows "parse c s = (Inr code, s1)"
  using assms by (simp add: parse_def)

lemma outputs_log_event [simp]: "outputs (log_event e s) = outputs s"
  by (simp add: log_event_def)

lemma events_log_event [simp]: "events (log_event e s) = events s @ [e]"
  by (simp add: log_event_def)

text \<open>
  Claim C9. When the stdout stage yields no result mapping because the output file is
  missing, because reading it raises \<^verbatim>\<open>IOError\<close>, or because the scanned mapping holds a
  status sentinel, \<^verbatim>\<open>parse\<close> returns the corresponding error code, leaves the outputs
  as they were (no \<^verbatim>\<open>output_parameters\<close>, \<^verbatim>\<open>output_structure\<close> or \<^verbatim>\<open>output_bands\<close> is
  added), and the only calls made are those of the stdout stage: the restart file is
  neither looked up nor read nor parsed.
\<close>

theorem no_outputs_on_stdout_failure:
  assumes "retrieved c = Some folder"
    and "folder (output_filename c) = None
         \<or> folder (output_filename c) = Some (Inl IOError)
         \<or> (folder (output_filename c) = Some (Inr txt)
            \<and> parse_cp2k_output c txt (sections (klass c)) = Inr d
            \<and> (''geo_not_converged'' |\<in>| fmdom d \<or> ''uks_needed'' |\<in>| fmdom d
                 \<or> ''aborted'' |\<in>| fmdom d))"
  shows "fst (parse c s) =
           Inr (case folder (output_filename c) of
                  None \<Rightarrow> ERROR_OUTPUT_STDOUT_MISSING
                | Some (Inl e) \<Rightarrow> ERROR_OUTPUT_STDOUT_READ
                | Some (Inr t) \<Rightarrow>
                    if ''geo_not_converged'' |\<in>| fmdom d
                    then ERROR_GEOMETRY_CONVERGENCE_NOT_REACHED
                    else if ''uks_needed'' |\<in>| fmdom d then ERROR_UKS_NEEDED
                    else ERROR_OUTPUT_CONTAINS_ABORT)
       \<and> outputs (snd (parse c s)) = outputs s
       \<and> events (snd (parse c s)) =
           events s @ (case folder (output_filename c) of
                         None \<Rightarrow> [Stdout_listed]
                       | Some (Inl e) \<Rightarrow> [Stdout_listed, Stdout_read]
                       | Some (Inr t) \<Rightarrow> [Stdout_listed, Stdout_read, Output_scanned])"
proof -
  have missing: ?thesis if m: "folder (output_filename c) = None"
    using parse_code [OF assms(1) parse_stdout_missing [OF assms(1) m]]
      parse_stdout_missing [OF assms(1) m, of s] m
    by simp
  have unreadable: ?thesis if u: "folder (output_filename c) = Some (Inl IOError)"
    using parse_code [OF assms(1) parse_stdout_unreadable [OF assms(1) u]]
      parse_stdout_unreadable [OF assms(1) u, of s] u
    by simp
  have sentinel: ?thesis
    if f: "folder (output_filename c) = Some (Inr txt)"
      and p: "parse_cp2k_output c txt (sections (klass c)) = Inr d"
      and k: "''geo_not_converged'' |\<in>| fmdom d \<or> ''uks_needed'' |\<in>| fmdom d
           \<or> ''aborted'' |\<in>| fmdom d"
  proof -
    let ?s3 = "log_event Output_scanned (log_event Stdout_read (log_event Stdout_listed s))"
    let ?code = "if ''geo_not_converged'' |\<in>| fmdom d
                    then ERROR_GEOMETRY_CONVERGENCE_NOT_REACHED
                    else if ''uks_needed'' |\<in>| fmdom d then ERROR_UKS_NEEDED
                    else ERROR_OUTPUT_CONTAINS_ABORT"
    have ps: "parse_stdout c s = (Inr (Inl ?code), ?s3)"
      using parse_stdout_scanned [OF assms(1) f p, of s] k by auto
    show ?thesis
      using parse_code [OF assms(1) ps] ps f by simp
  qed
  from assms(2) show ?thesis
    using missing unreadable sentinel by (elim disjE conjE) blast+
qed

theorem no_outputs_on_stdout_failure_witness:
  "fst (parse (folder_calc [''aiida-1.restart'' \<mapsto> Inr ''coords'']) fresh)
     = Inr ERROR_OUTPUT_STDOUT_MISSING
   \<and> outputs (snd (parse (folder_calc [''aiida-1.restart'' \<mapsto> Inr ''coords'']) fresh))
     = Map.empty
   \<and> events (snd (parse (folder_calc [''aiida-1.restart'' \<mapsto> Inr ''coords'']) fresh))
     = [Stdout_listed]"
proof -
  let ?c = "folder_calc [''aiida-1.restart'' \<mapsto> Inr ''coords'']"
  have a: "retrieved ?c = Some [''aiida-1.restart'' \<mapsto> Inr ''coords'']"
    by (simp add: folder_calc_def)
  have n: "[''aiida-1.restart'' \<mapsto> Inr ''coords''] (output_filename ?c) = None"
    by (simp add: folder_calc_def)
  have b: "[''aiida-1.restart'' \<mapsto> Inr ''coords''] (output_filename ?c) = None
         \<or> [''aiida-1.restart'' \<mapsto> Inr ''coords''] (output_filename ?c) = Some (Inl IOError)
         \<or> ([''aiida-1.restart'' \<mapsto> Inr ''coords''] (output_filename ?c) = Some (Inr ''log'')
            \<and> parse_cp2k_output ?c ''log'' (sections (klass ?c)) = Inr plain
            \<and> (''geo_not_converged'' |\<in>| fmdom plain \<or> ''uks_needed'' |\<in>| fmdom plain
                 \<or> ''aborted'' |\<in>| fmdom plain))"
    by (rule disjI1) (rule n)
  have o: "outputs fresh = Map.empty" "events fresh = []"
    by (simp_all add: fresh_def)
  show ?thesis
    using no_outputs_on_stdout_failure [OF a b, of fresh] o by (simp add: folder_calc_def)
qed

text \<open>
  Claim C7 asks for four pairwise distinguishable signals. An unreadable output file and
  an unreadable restart file give the same one: \<^verbatim>\<open>_parse_stdout\<close> and
  \<^verbatim>\<open>_parse_trajectory\<close> both return \<^verbatim>\<open>ERROR_OUTPUT_STDOUT_READ\<close>, and so does
  \<^verbatim>\<open>parse\<close> in both runs.
\<close>

theorem read_error_code_shared:
  "fst (parse_stdout (folder_calc [''aiida.out'' \<mapsto> Inl IOError]) fresh)
     = Inr (Inl ERROR_OUTPUT_STDOUT_READ)
   \<and> fst (parse_trajectory
        (folder_calc [''aiida.out'' \<mapsto> Inr ''log'', ''aiida-1.restart'' \<mapsto> Inl IOError]) fresh)
     = Inr (Inl ERROR_OUTPUT_STDOUT_READ)
   \<and> fst (parse (folder_calc [''aiida.out'' \<mapsto> Inl IOError]) fresh)
     = Inr ERROR_OUTPUT_STDOUT_READ
   \<and> fst (parse
        (folder_calc [''aiida.out'' \<mapsto> Inr ''log'', ''aiida-1.restart'' \<mapsto> Inl IOError]) fresh)
     = Inr ERROR_OUTPUT_STDOUT_READ"
  by (simp add: parse_def parse_stdout_def parse_trajectory_def create_output_nodes_def
      folder_calc_def plain_def Let_def)


section \<open>The trajectory stage and the outputs of a run\<close>

lemma parse_trajectory_malformed:
  assumes "retrieved c = Some folder" and "folder (restart_file_name c) = Some (Inr txt)"
    and "build_structure c txt = Inl e"
  shows "parse_trajectory c s =
      (Inl e, log_event Trajectory_parsed (log_event Restart_read (log_event Restart_listed s)))"
  using assms by (simp add: parse_trajectory_def Let_def)

lemma parse_proceeds:
  assumes "retrieved c = Some folder"
    and "parse_stdout c s = (Inr (Inr d), s1)"
    and "create_output_nodes c d s1 = (Inr (), s2)"
  shows "parse c s =
     (case parse_trajectory c s2 of
        (Inl e, s3) \<Rightarrow> if e = NotExistent then (Inr ExitCode_0, s3) else (Inl e, s3)
      | (Inr (Inl code), s3) \<Rightarrow> (Inr code, s3)
      | (Inr (Inr st), s3) \<Rightarrow> (Inr ExitCode_0, out ''output_structure'' (Structure st) s3))"
  using assms by (simp add: parse_def)

lemma outputs_parse_trajectory: "outputs (snd (parse_trajectory c s)) = outputs s"
  by (simp add: parse_trajectory_def Let_def split: option.splits sum.splits)

lemma outputs_parse_proceeds:
  assumes "retrieved c = Some folder"
    and "parse_stdout c s = (Inr (Inr d), s1)"
    and "create_output_nodes c d s1 = (Inr (), s2)"
    and "k \<noteq> ''output_structure''"
  shows "outputs (snd (parse c s)) k = outputs s2 k"
proof -
  obtain r s3 where pt: "parse_trajectory c s2 = (r, s3)" by (cases "parse_trajectory c s2")
  have o: "outputs s3 = outputs s2"
    using outputs_parse_trajectory [of c s2] pt by simp
  show ?thesis
    using assms(4) o
    by (simp add: parse_proceeds [OF assms(1-3)] pt out_def split: sum.splits)
qed

text \<open>
  Claim C6. When the restart file is not in the retrieved folder, \<^verbatim>\<open>_parse_trajectory\<close>
  raises \<^verbatim>\<open>NotExistent\<close>; \<^verbatim>\<open>parse\<close> catches it, so that a run whose stdout stage and
  output nodes succeeded returns \<^verbatim>\<open>ExitCode(0)\<close> with exactly the outputs it had before
  the trajectory stage. A restart file that is present but cannot be parsed gives another
  result: the parser's own exception, which is not caught unless it is \<^verbatim>\<open>NotExistent\<close>
  itself.
\<close>

theorem trajectory_absence_nonfatal:
  assumes "retrieved c = Some folder" and "folder (restart_file_name c) = None"
  shows "fst (parse_trajectory c s') = Inl NotExistent
       \<and> (parse_stdout c s = (Inr (Inr d), s1) \<and> create_output_nodes c d s1 = (Inr (), s2)
            \<longrightarrow> parse c s = (Inr ExitCode_0, log_event Restart_listed s2)
              \<and> outputs (snd (parse c s)) = outputs s2)
       \<and> (retrieved c' = Some folder' \<and> folder' (restart_file_name c') = Some (Inr txt)
            \<and> build_structure c' txt = Inl e \<and> e \<noteq> NotExistent
            \<longrightarrow> fst (parse_trajectory c' s') = Inl e
              \<and> fst (parse_trajectory c' s') \<noteq> fst (parse_trajectory c s'))"
proof -
  have one: "fst (parse_trajectory c s') = Inl NotExistent"
    by (simp add: parse_trajectory_missing [OF assms])
  have two: "parse c s = (Inr ExitCode_0, log_event Restart_listed s2)
              \<and> outputs (snd (parse c s)) = outputs s2"
    if "parse_stdout c s = (Inr (Inr d), s1)"
      and "create_output_nodes c d s1 = (Inr (), s2)"
    using parse_proceeds [OF assms(1) that] parse_trajectory_missing [OF assms, of s2]
    by simp
  have three: "fst (parse_trajectory c' s') = Inl e
              \<and> fst (parse_trajectory c' s') \<noteq> fst (parse_trajectory c s')"
    if "retrieved c' = Some folder'" and "folder' (restart_file_name c') = Some (Inr txt)"
      and "build_structure c' txt = Inl e" and "e \<noteq> NotExistent"
    using parse_trajectory_malformed [OF that(1-3), of s'] one that(4) by simp
  show ?thesis using one two three by blast
qed

theorem trajectory_absence_nonfatal_witness:
  "fst (parse_trajectory (sample_calc Cp2kBaseParser plain) fresh) = Inl NotExistent
   \<and> parse (sample_calc Cp2kBaseParser plain) fresh =
       (Inr ExitCode_0,
        \<lparr>outputs = [''output_parameters'' \<mapsto> Dict plain],
         events = [Stdout_listed, Stdout_read, Output_scanned, Restart_listed]\<rparr>)
   \<and> fst (parse_trajectory malformed_restart fresh) = Inl (OtherError ''ValueError'')"
proof -
  let ?c = "sample_calc Cp2kBaseParser plain"
  let ?s1 = "log_event Output_scanned (log_event Stdout_read (log_event Stdout_listed fresh))"
  let ?s2 = "out ''output_parameters'' (Dict plain) ?s1"
  have a: "retrieved ?c = Some [''aiida.out'' \<mapsto> Inr ''log'']"
    by (simp add: sample_calc_def)
  have b: "[''aiida.out'' \<mapsto> Inr ''log''] (restart_file_name ?c) = None"
    by (simp add: sample_calc_def)
  have ps: "parse_stdout ?c fresh = (Inr (Inr plain), ?s1)"
    by (simp add: parse_stdout_def sample_calc_def plain_def Let_def)
  have co: "create_output_nodes ?c plain ?s1 = (Inr (), ?s2)"
    by (simp add: create_output_nodes_def sample_calc_def)
  have m: "retrieved malformed_restart =
        Some [''aiida.out'' \<mapsto> Inr ''log'', ''aiida-1.restart'' \<mapsto> Inr ''garbage'']"
      "[''aiida.out'' \<mapsto> Inr ''log'', ''aiida-1.restart'' \<mapsto> Inr ''garbage'']
         (restart_file_name malformed_restart) = Some (Inr ''garbage'')"
      "build_structure malformed_restart ''garbage'' = Inl (OtherError ''ValueError'')"
      "OtherError ''ValueError'' \<noteq> NotExistent"
    by (simp_all add: malformed_restart_def)
  have s2: "log_event Restart_listed ?s2 =
       \<lparr>outputs = [''output_parameters'' \<mapsto> Dict plain],
         events = [Stdout_listed, Stdout_read, Output_scanned, Restart_listed]\<rparr>"
    by (simp add: log_event_def out_def fresh_def)
  note T = trajectory_absence_nonfatal [OF a b, of fresh fresh plain ?s1 ?s2 malformed_restart
        "[''aiida.out'' \<mapsto> Inr ''log'', ''aiida-1.restart'' \<mapsto> Inr ''garbage'']"
        "''garbage''" "OtherError ''ValueError''"]
  from T have t1: "fst (parse_trajectory ?c fresh) = Inl NotExistent"
    by (rule conjunct1)
  from T ps co have t2: "parse ?c fresh = (Inr ExitCode_0, log_event Restart_listed ?s2)"
    by blast
  from T m have t3: "fst (parse_trajectory malformed_restart fresh) = Inl (OtherError ''ValueError'')"
    by blast
  show ?thesis
    using t1 t2 t3 s2 by simp
qed

lemma promote_kpoints_shape:
  assumes "promote_kpoints c d s = Inr (d', s')"
  shows "d' = d \<or> d' = fmdrop ''kpoint_data'' d"
  using assms
  by (auto simp: promote_kpoints_def bnd_eq_Inr_iff split: if_splits)

lemma create_output_nodes_dict:
  assumes "create_output_nodes c d s = (Inr (), s2)"
  shows "\<exists>d'. outputs s2 ''output_parameters'' = Some (Dict d')
           \<and> (\<forall>key. key |\<in>| fmdom d' \<longrightarrow>
                  key |\<in>| fmdom d \<or> key = ''eigen_spin2_au''
                  \<or> key = ''bandgap_spin1_au'' \<or> key = ''bandgap_spin2_au'')"
proof (cases "klass c")
  case Cp2kBaseParser
  with assms show ?thesis
    by (auto simp: create_output_nodes_def out_def)
next
  case Cp2kAdvancedParser
  let ?r = "if ''eigen_spin1_au'' |\<in>| fmdom d then bandgap d else Inr d"
  from assms Cp2kAdvancedParser obtain d1 d' s' where
    r: "?r = Inr d1" and p: "promote_kpoints c d1 s = Inr (d', s')"
    and s2: "s2 = out ''output_parameters'' (Dict d') s'"
    by (auto simp: create_output_nodes_def split: sum.splits prod.splits)
  have k1: "key |\<in>| fmdom d1 \<Longrightarrow> key |\<in>| fmdom d \<or> key = ''eigen_spin2_au''
                  \<or> key = ''bandgap_spin1_au'' \<or> key = ''bandgap_spin2_au''" for key
  proof (cases "''eigen_spin1_au'' |\<in>| fmdom d")
    case True
    with r have "bandgap d = Inr d1" by simp
    from bandgap_shape [OF this] show "key |\<in>| fmdom d1 \<Longrightarrow> ?thesis" by auto
  next
    case False
    with r show "key |\<in>| fmdom d1 \<Longrightarrow> ?thesis" by simp
  qed
  have k2: "key |\<in>| fmdom d' \<Longrightarrow> key |\<in>| fmdom d1" for key
    using promote_kpoints_shape [OF p] by auto
  show ?thesis
    using s2 k1 k2 by (auto simp: out_def)
qed

text \<open>
  Claim C2, amended. When the scanned mapping holds a status sentinel, \<^verbatim>\<open>parse\<close> returns
  the sentinel's error code and emits nothing: neither the mapping nor a bands node.
  The mapping is emitted only when no sentinel is present (and the output nodes can be
  built); it then has no sentinel key, and the bands node is the one built from it.
\<close>

theorem sentinel_suppresses_outputs:
  assumes "retrieved c = Some folder"
    and "folder (output_filename c) = Some (Inr txt)"
    and "parse_cp2k_output c txt (sections (klass c)) = Inr d"
  shows "(''geo_not_converged'' |\<in>| fmdom d \<or> ''uks_needed'' |\<in>| fmdom d
            \<or> ''aborted'' |\<in>| fmdom d \<longrightarrow>
          outputs (snd (parse c s)) = outputs s
          \<and> fst (parse c s) \<in> {Inr ERROR_GEOMETRY_CONVERGENCE_NOT_REACHED, Inr ERROR_UKS_NEEDED,
                                Inr ERROR_OUTPUT_CONTAINS_ABORT})
       \<and> (''geo_not_converged'' |\<notin>| fmdom d \<and> ''uks_needed'' |\<notin>| fmdom d
            \<and> ''aborted'' |\<notin>| fmdom d
            \<and> create_output_nodes c d
                 (log_event Output_scanned (log_event Stdout_read (log_event Stdout_listed s)))
               = (Inr (), s2) \<longrightarrow>
          (\<exists>d'. outputs (snd (parse c s)) ''output_parameters'' = Some (Dict d')
                \<and> ''geo_not_converged'' |\<notin>| fmdom d' \<and> ''uks_needed'' |\<notin>| fmdom d'
                \<and> ''aborted'' |\<notin>| fmdom d')
          \<and> outputs (snd (parse c s)) ''output_bands'' = outputs s2 ''output_bands'')"
proof -
  let ?s3 = "log_event Output_scanned (log_event Stdout_read (log_event Stdout_listed s))"
  note ps = parse_stdout_scanned [OF assms, of s]
  have one: "outputs (snd (parse c s)) = outputs s
          \<and> fst (parse c s) \<in> {Inr ERROR_GEOMETRY_CONVERGENCE_NOT_REACHED, Inr ERROR_UKS_NEEDED,
                                Inr ERROR_OUTPUT_CONTAINS_ABORT}"
    if "''geo_not_converged'' |\<in>| fmdom d \<or> ''uks_needed'' |\<in>| fmdom d
            \<or> ''aborted'' |\<in>| fmdom d"
  proof -
    let ?code = "if ''geo_not_converged'' |\<in>| fmdom d
                    then ERROR_GEOMETRY_CONVERGENCE_NOT_REACHED
                    else if ''uks_needed'' |\<in>| fmdom d then ERROR_UKS_NEEDED
                    else ERROR_OUTPUT_CONTAINS_ABORT"
    have "parse_stdout c s = (Inr (Inl ?code), ?s3)"
      using ps that by auto
    from parse_code [OF assms(1) this] show ?thesis by simp
  qed
  have two: "(\<exists>d'. outputs (snd (parse c s)) ''output_parameters'' = Some (Dict d')
                \<and> ''geo_not_converged'' |\<notin>| fmdom d' \<and> ''uks_needed'' |\<notin>| fmdom d'
                \<and> ''aborted'' |\<notin>| fmdom d')
          \<and> outputs (snd (parse c s)) ''output_bands'' = outputs s2 ''output_bands''"
    if n: "''geo_not_converged'' |\<notin>| fmdom d" "''uks_needed'' |\<notin>| fmdom d"
        "''aborted'' |\<notin>| fmdom d"
      and co: "create_output_nodes c d ?s3 = (Inr (), s2)"
  proof -
    have p: "parse_stdout c s = (Inr (Inr d), ?s3)"
      using ps n by simp
    have o: "outputs (snd (parse c s)) ''output_parameters'' = outputs s2 ''output_parameters''"
        "outputs (snd (parse c s)) ''output_bands'' = outputs s2 ''output_bands''"
      using outputs_parse_proceeds [OF assms(1) p co] by simp_all
    from create_output_nodes_dict [OF co] obtain d' where
      d': "outputs s2 ''output_parameters'' = Some (Dict d')"
        "\<forall>key. key |\<in>| fmdom d' \<longrightarrow>
                  key |\<in>| fmdom d \<or> key = ''eigen_spin2_au''
                  \<or> key = ''bandgap_spin1_au'' \<or> key = ''bandgap_spin2_au''"
      by blast
    have "''geo_not_converged'' |\<notin>| fmdom d'" "''uks_needed'' |\<notin>| fmdom d'"
        "''aborted'' |\<notin>| fmdom d'"
      using d'(2) n by auto
    with o d'(1) show ?thesis by simp
  qed
  show ?thesis using one two by blast
qed

text \<open>
  Claim C2, as stated: with a sentinel set the caller still receives the mapping and the
  bands node. In a run whose mapping holds \<^verbatim>\<open>geo_not_converged\<close> and \<^verbatim>\<open>kpoint_data\<close>
  the advanced parser returns the error code with neither output.
\<close>

theorem sentinel_output_counterexample:
  "''geo_not_converged'' |\<in>| fmdom not_converged_with_kpoints
   \<and> ''kpoint_data'' |\<in>| fmdom not_converged_with_kpoints
   \<and> fst (parse (sample_calc Cp2kAdvancedParser not_converged_with_kpoints) fresh)
       = Inr ERROR_GEOMETRY_CONVERGENCE_NOT_REACHED
   \<and> outputs (snd (parse (sample_calc Cp2kAdvancedParser not_converged_with_kpoints) fresh))
        ''output_parameters'' = None
   \<and> outputs (snd (parse (sample_calc Cp2kAdvancedParser not_converged_with_kpoints) fresh))
        ''output_bands'' = None"
  by (simp add: parse_def parse_stdout_def sample_calc_def not_converged_with_kpoints_def
      fresh_def Let_def)

theorem sentinel_suppresses_outputs_witness:
  "outputs (snd (parse (sample_calc Cp2kAdvancedParser not_converged_with_kpoints) fresh))
     = Map.empty
   \<and> fst (parse (sample_calc Cp2kAdvancedParser not_converged_with_kpoints) fresh)
       \<in> {Inr ERROR_GEOMETRY_CONVERGENCE_NOT_REACHED, Inr ERROR_UKS_NEEDED,
          Inr ERROR_OUTPUT_CONTAINS_ABORT}
   \<and> (\<exists>d'. outputs (snd (parse (sample_calc Cp2kBaseParser plain) fresh)) ''output_parameters''
             = Some (Dict d')
           \<and> ''geo_not_converged'' |\<notin>| fmdom d' \<and> ''uks_needed'' |\<notin>| fmdom d'
           \<and> ''aborted'' |\<notin>| fmdom d')"
proof -
  let ?f = "[''aiida.out'' \<mapsto> Inr ''log'']"
  let ?a = "sample_calc Cp2kAdvancedParser not_converged_with_kpoints"
  let ?b = "sample_calc Cp2kBaseParser plain"
  let ?s3 = "log_event Output_scanned (log_event Stdout_read (log_event Stdout_listed fresh))"
  have a: "retrieved ?a = Some ?f" "?f (output_filename ?a) = Some (Inr ''log'')"
      "parse_cp2k_output ?a ''log'' (sections (klass ?a)) = Inr not_converged_with_kpoints"
    by (simp_all add: sample_calc_def)
  have b: "retrieved ?b = Some ?f" "?f (output_filename ?b) = Some (Inr ''log'')"
      "parse_cp2k_output ?b ''log'' (sections (klass ?b)) = Inr plain"
    by (simp_all add: sample_calc_def)
  have k: "''geo_not_converged'' |\<in>| fmdom not_converged_with_kpoints"
    by (simp add: not_converged_with_kpoints_def)
  have n: "''geo_not_converged'' |\<notin>| fmdom plain" "''uks_needed'' |\<notin>| fmdom plain"
      "''aborted'' |\<notin>| fmdom plain"
    by (simp_all add: plain_def)
  have co: "create_output_nodes ?b plain ?s3
              = (Inr (), out ''output_parameters'' (Dict plain) ?s3)"
    by (simp add: create_output_nodes_def sample_calc_def)
  have o: "outputs fresh = Map.empty" by (simp add: fresh_def)
  from sentinel_suppresses_outputs [OF a, of fresh] k o
  have t1: "outputs (snd (parse ?a fresh)) = Map.empty
      \<and> fst (parse ?a fresh) \<in> {Inr ERROR_GEOMETRY_CONVERGENCE_NOT_REACHED, Inr ERROR_UKS_NEEDED,
          Inr ERROR_OUTPUT_CONTAINS_ABORT}"
    by simp
  from sentinel_suppresses_outputs [OF b, of fresh "out ''output_parameters'' (Dict plain) ?s3"]
    n co
  have t2: "\<exists>d'. outputs (snd (parse ?b fresh)) ''output_parameters'' = Some (Dict d')
           \<and> ''geo_not_converged'' |\<notin>| fmdom d' \<and> ''uks_needed'' |\<notin>| fmdom d'
           \<and> ''aborted'' |\<notin>| fmdom d'"
    by blast
  show ?thesis using t1 t2 by blast
qed


section \<open>Last occurrence of a scalar marker\<close>

lemma scan_scalar_append:
  "scan_scalar r (xs @ ys) d = bnd (scan_scalar r xs d) (scan_scalar r ys)"
  by (induction xs arbitrary: d) (simp_all split: option.splits)

lemma scan_scalar_no_marker:
  "\<forall>x \<in> set xs. \<not> has_marker (marker r) x \<Longrightarrow> scan_scalar r xs d = Inr d"
  by (induction xs arbitrary: d) simp_all

lemma scan_scalar_returns:
  "\<forall>x \<in> set xs. has_marker (marker r) x \<longrightarrow> scalar_value x \<noteq> None \<Longrightarrow>
     \<exists>d'. scan_scalar r xs d = Inr d'"
  by (induction xs arbitrary: d) auto

text \<open>
  Claim C8. When the marker of a scalar section occurs on a line \<open>l\<close> and on no later
  line, and the earlier marker lines carry numeric values, the scan returns a mapping
  whose field holds the value parsed from \<open>l\<close>, the last occurrence. A log with the
  energy line at 10 and later at -5.5 yields \<^verbatim>\<open>energy == -5.5\<close>.
\<close>

theorem scalar_last_occurrence_wins:
  assumes "has_marker (marker r) l"
    and "\<forall>x \<in> set post. \<not> has_marker (marker r) x"
    and "\<forall>x \<in> set pre. has_marker (marker r) x \<longrightarrow> scalar_value x \<noteq> None"
    and "scalar_value l = Some v"
  shows "\<exists>res. scan_scalar r (pre @ l # post) d = Inr res
             \<and> fmlookup res (field r) = Some (PFloat v)"
proof -
  from scan_scalar_returns [OF assms(3)] obtain d' where
    pre: "scan_scalar r pre d = Inr d'" by blast
  have "scan_scalar r (l # post) d' = scan_scalar r post (fmupd (field r) (PFloat v) d')"
    using assms(1,4) by simp
  also have "\<dots> = Inr (fmupd (field r) (PFloat v) d')"
    using assms(2) by (rule scan_scalar_no_marker)
  finally have "scan_scalar r (pre @ l # post) d = Inr (fmupd (field r) (PFloat v) d')"
    by (simp add: scan_scalar_append pre)
  then show ?thesis by simp
qed

theorem scalar_last_occurrence_wins_witness:
  "log_lines two_energies =
     ['' SCF run converged in 9 steps'',
      '' ENERGY| Total FORCE_EVAL ( QS ) energy (a.u.): 10'',
      '' OPTIMIZATION STEP: 2'']
     @ '' ENERGY| Total FORCE_EVAL ( QS ) energy (a.u.): -5.5'' # ['' PROGRAM ENDED'']
   \<and> scalar_value '' ENERGY| Total FORCE_EVAL ( QS ) energy (a.u.): 10'' = Some 10
   \<and> (\<exists>res. scan_energy two_energies = Inr res
            \<and> fmlookup res ''energy'' = Some (PFloat (- 5.5)))"
proof -
  let ?pre = "['' SCF run converged in 9 steps'',
      '' ENERGY| Total FORCE_EVAL ( QS ) energy (a.u.): 10'',
      '' OPTIMIZATION STEP: 2'']"
  let ?l = "'' ENERGY| Total FORCE_EVAL ( QS ) energy (a.u.): -5.5''"
  let ?post = "['' PROGRAM ENDED'']"
  have ls: "log_lines two_energies = ?pre @ ?l # ?post"
    by (simp add: log_lines_def two_energies_def)
  have v10: "scalar_value '' ENERGY| Total FORCE_EVAL ( QS ) energy (a.u.): 10'' = Some 10"
    by (simp add: scalar_value_def tokens_def parse_float_def unsigned_decimal_def digit_def
        Let_def)
  have a: "has_marker (marker energy_rule) ?l"
    by (simp add: energy_rule_def)
  have b: "\<forall>x \<in> set ?post. \<not> has_marker (marker energy_rule) x"
    by (simp add: energy_rule_def)
  have c: "\<forall>x \<in> set ?pre. has_marker (marker energy_rule) x \<longrightarrow> scalar_value x \<noteq> None"
    using v10 by (simp add: energy_rule_def)
  have e: "scalar_value ?l = Some (- 5.5)"
    by (simp add: scalar_value_def tokens_def parse_float_def unsigned_decimal_def digit_def
        Let_def)
  have f: "field energy_rule = ''energy''"
    by (simp add: energy_rule_def)
  from scalar_last_occurrence_wins [OF a b c e, of fmempty]
  have "\<exists>res. scan_energy two_energies = Inr res
            \<and> fmlookup res ''energy'' = Some (PFloat (- 5.5))"
    unfolding scan_energy_def ls f .
  with ls v10 show ?thesis by blast
qed


end
